theory Spec2Isabelle
  imports Complex_Main
begin

section \<open>Python values used by the plugin\<close>

text \<open>
  A Python \<open>str\<close> is a sequence of Unicode code points, so it is modelled as a list of
  naturals (one per code point). \<open>ascii\<close> turns an ASCII literal into such a list.
  Times (\<open>time.time()\<close>) and scores are Python floats; only differences and comparisons
  of them are used, and they are modelled as reals.
\<close>

type_synonym pystr = "nat list"

definition ascii :: "string \<Rightarrow> pystr" where
  "ascii s = map of_char s"

text \<open>An exception instance, identified by the text \<open>str(e)\<close> gives.\<close>

datatype exn = Exn pystr

text \<open>
  \<open>str.isspace\<close> of one code point (also the class \<open>\s\<close> of \<open>re\<close> on a \<open>str\<close> pattern):
  U+0009..U+000D, U+001C..U+0020, U+0085, U+00A0, U+1680, U+2000..U+200A, U+2028, U+2029,
  U+202F, U+205F, U+3000.
\<close>

definition py_isspace :: "nat \<Rightarrow> bool" where
  "py_isspace c \<longleftrightarrow>
     (0x9 \<le> c \<and> c \<le> 0xD) \<or> (0x1C \<le> c \<and> c \<le> 0x20) \<or> c = 0x85 \<or> c = 0xA0 \<or> c = 0x1680 \<or>
     (0x2000 \<le> c \<and> c \<le> 0x200A) \<or> c = 0x2028 \<or> c = 0x2029 \<or> c = 0x202F \<or> c = 0x205F \<or>
     c = 0x3000"

definition lstrip :: "pystr \<Rightarrow> pystr" where
  "lstrip s = dropWhile py_isspace s"

definition rstrip :: "pystr \<Rightarrow> pystr" where
  "rstrip s = rev (dropWhile py_isspace (rev s))"

definition strip :: "pystr \<Rightarrow> pystr" where
  "strip s = rstrip (lstrip s)"


section \<open>Update orchestrator: \<open>ImpressionUpdateHandler.handle\<close>\<close>

text \<open>
  Lines 440--567 of \<open>plugin.py\<close> probe the host's event object for the subject id, the
  message text and the message id. Their outcome is the input of the model: the probing
  raised, or it returned early with a note (no subject id, empty content), or it produced a
  turn \<open>(user_id, message_id, message_content)\<close>.
\<close>

datatype resolution =
    ResolveRaised exn
  | Rejected pystr
  | Turn pystr pystr pystr

record orchestrator_config =
  max_messages :: int
  filter_mode :: pystr
  high_threshold :: real
  medium_threshold :: real

text \<open>
  The services the handler calls live outside \<open>plugin.py\<close>; each call's outcome is a
  parameter: either the exception it raises or the value it returns. The history window is
  fetched twice (before evaluation and again before building the impression), and the two
  fetches may differ.
\<close>

record services =
  window_at_fetch :: "pystr \<Rightarrow> int \<Rightarrow> exn + (pystr \<times> pystr list)"
  evaluate_message :: "pystr \<Rightarrow> pystr \<Rightarrow> pystr \<Rightarrow> pystr \<Rightarrow> exn + (bool \<times> real \<times> pystr)"
  window_at_refetch :: "pystr \<Rightarrow> int \<Rightarrow> exn + (pystr \<times> pystr list)"
  build_impression :: "pystr \<Rightarrow> pystr \<Rightarrow> pystr \<Rightarrow> exn + (bool \<times> pystr)"
  update_affection :: "pystr \<Rightarrow> pystr \<Rightarrow> exn + (bool \<times> pystr)"
  update_message_state :: "pystr \<Rightarrow> pystr \<Rightarrow> bool \<Rightarrow> bool \<Rightarrow> exn option"

text \<open>
  Modelled from the spec: the Processed-Ledger of \<open>MessageService\<close> (section 4.2), whose
  code is not part of \<open>plugin.py\<close>: \<open>is_processed(subject, message_id)\<close> is membership and
  \<open>record(subject, message_id)\<close> is an idempotent insertion.
\<close>

type_synonym ledger = "(pystr \<times> pystr) set"

definition is_message_processed :: "ledger \<Rightarrow> pystr \<Rightarrow> pystr \<Rightarrow> bool" where
  "is_message_processed L user_id message_id \<longleftrightarrow> (user_id, message_id) \<in> L"

definition record_processed_message :: "ledger \<Rightarrow> pystr \<Rightarrow> pystr \<Rightarrow> ledger" where
  "record_processed_message L user_id msg_id = insert (user_id, msg_id) L"

text \<open>The calls the handler makes, in the order it makes them.\<close>

datatype event =
    IsProcessed pystr pystr
  | GetFiltered pystr int
  | RecordProcessed pystr pystr
  | EvaluateMessage pystr pystr pystr pystr
  | BuildImpression pystr pystr pystr
  | UpdateAffection pystr pystr
  | UpdateMessageState pystr pystr bool bool

record handle_out =
  ledger_out :: ledger
  trace_out :: "event list"
  result_out :: pystr

definition msg_skipped :: pystr where
  "msg_skipped = [0x6d88, 0x606f, 0x5df2, 0x5904, 0x7406, 0xff0c, 0x8df3, 0x8fc7]"

definition msg_done :: pystr where
  "msg_done = [0x5370, 0x8c61, 0x548c, 0x597d, 0x611f, 0x5ea6, 0x66f4, 0x65b0, 0x5b8c, 0x6210]"

definition msg_exception :: "exn \<Rightarrow> pystr" where
  "msg_exception e = (case e of Exn s \<Rightarrow> [0x5f02, 0x5e38, 0x3a, 0x20] @ s)"

text \<open>Lines 612--635: the decision whether to rebuild the impression.\<close>

definition should_update_impression :: "orchestrator_config \<Rightarrow> pystr \<Rightarrow> bool \<Rightarrow> real \<Rightarrow> bool" where
  "should_update_impression cfg history_context weight_success weight_score =
     (if length (strip history_context) = 0 then False
      else if weight_success then
        (if filter_mode cfg = ascii ''disabled'' then True
         else if filter_mode cfg = ascii ''selective'' then weight_score \<ge> high_threshold cfg
         else if filter_mode cfg = ascii ''balanced'' then weight_score \<ge> medium_threshold cfg
         else False)
      else False)"

text \<open>Lines 637--657: the impression is rebuilt inside its own \<open>try\<close>; a failure is logged.\<close>

definition impression_step ::
  "orchestrator_config \<Rightarrow> services \<Rightarrow> pystr \<Rightarrow> pystr \<Rightarrow> bool \<Rightarrow> event list \<times> bool" where
  "impression_step cfg sv user_id message_content should =
     (if should then
        (case window_at_refetch sv user_id (max_messages cfg) of
           Inl e \<Rightarrow> ([GetFiltered user_id (max_messages cfg)], False)
         | Inr (latest_context, latest_message_ids) \<Rightarrow>
             (case build_impression sv user_id message_content latest_context of
                Inl e \<Rightarrow>
                  ([GetFiltered user_id (max_messages cfg),
                    BuildImpression user_id message_content latest_context], False)
              | Inr (success, impression_result) \<Rightarrow>
                  ([GetFiltered user_id (max_messages cfg),
                    BuildImpression user_id message_content latest_context], success)))
      else ([], False))"

text \<open>Lines 659--671: the affection update, in its own \<open>try\<close>, under no condition.\<close>

definition affection_step :: "services \<Rightarrow> pystr \<Rightarrow> pystr \<Rightarrow> event list \<times> bool" where
  "affection_step sv user_id message_content =
     ([UpdateAffection user_id message_content],
      (case update_affection sv user_id message_content of
         Inl e \<Rightarrow> False
       | Inr (success, affection_result) \<Rightarrow> success))"

text \<open>Lines 612--681, entered with the outcome of the weight evaluation.\<close>

definition settle ::
  "orchestrator_config \<Rightarrow> services \<Rightarrow> ledger \<Rightarrow> event list \<Rightarrow> pystr \<Rightarrow> pystr \<Rightarrow> pystr \<Rightarrow>
   pystr \<Rightarrow> bool \<Rightarrow> real \<Rightarrow> handle_out" where
  "settle cfg sv L tr user_id message_id message_content history_context weight_success weight_score =
     (let (tr_i, impression_updated) =
            impression_step cfg sv user_id message_content
              (should_update_impression cfg history_context weight_success weight_score);
          (tr_a, affection_updated) = affection_step sv user_id message_content;
          tr' = tr @ tr_i @ tr_a @
                [UpdateMessageState user_id message_id impression_updated affection_updated]
      in (case update_message_state sv user_id message_id impression_updated affection_updated of
            Some e \<Rightarrow> \<lparr>ledger_out = L, trace_out = tr', result_out = msg_exception e\<rparr>
          | None \<Rightarrow> \<lparr>ledger_out = L, trace_out = tr', result_out = msg_done\<rparr>))"

text \<open>
  Lines 432--685. Everything runs inside one \<open>try\<close>: an exception that no inner \<open>try\<close>
  catches ends the turn with the result \<open>"exception: ..."\<close>.
\<close>

definition handle :: "orchestrator_config \<Rightarrow> services \<Rightarrow> ledger \<Rightarrow> resolution \<Rightarrow> handle_out" where
  "handle cfg sv L r =
     (case r of
        ResolveRaised e \<Rightarrow> \<lparr>ledger_out = L, trace_out = [], result_out = msg_exception e\<rparr>
      | Rejected note \<Rightarrow> \<lparr>ledger_out = L, trace_out = [], result_out = note\<rparr>
      | Turn user_id message_id message_content \<Rightarrow>
          if is_message_processed L user_id message_id
          then \<lparr>ledger_out = L, trace_out = [IsProcessed user_id message_id], result_out = msg_skipped\<rparr>
          else
            (case window_at_fetch sv user_id (max_messages cfg) of
               Inl e \<Rightarrow>
                 \<lparr>ledger_out = L,
                  trace_out = [IsProcessed user_id message_id, GetFiltered user_id (max_messages cfg)],
                  result_out = msg_exception e\<rparr>
             | Inr (history_context, message_ids_in_context) \<Rightarrow>
                 let L' = fold (\<lambda>msg_id acc. record_processed_message acc user_id msg_id)
                            message_ids_in_context L;
                     tr = [IsProcessed user_id message_id, GetFiltered user_id (max_messages cfg)] @
                          map (RecordProcessed user_id) message_ids_in_context
                 in if length (strip history_context) = 0
                    then settle cfg sv L' tr user_id message_id message_content history_context False 0
                    else
                      (case evaluate_message sv user_id message_id message_content history_context of
                         Inl e \<Rightarrow>
                           \<lparr>ledger_out = L',
                            trace_out = tr @ [EvaluateMessage user_id message_id message_content
                                               history_context],
                            result_out = msg_exception e\<rparr>
                       | Inr (weight_success, weight_score, weight_level) \<Rightarrow>
                           settle cfg sv L'
                             (tr @ [EvaluateMessage user_id message_id message_content history_context])
                             user_id message_id message_content history_context
                             weight_success weight_score)))"


subsection \<open>The gate as the specification words it\<close>

text \<open>
  The filter modes of section 4.4: \<open>disabled\<close> accepts always, \<open>selective\<close> accepts a score
  of at least the high threshold, \<open>balanced\<close> a score of at least the medium threshold.
\<close>

definition filter_accepts :: "orchestrator_config \<Rightarrow> real \<Rightarrow> bool" where
  "filter_accepts cfg score \<longleftrightarrow>
     filter_mode cfg = ascii ''disabled'' \<or>
     (filter_mode cfg = ascii ''selective'' \<and> score \<ge> high_threshold cfg) \<or>
     (filter_mode cfg = ascii ''balanced'' \<and> score \<ge> medium_threshold cfg)"

text \<open>
  The gate passes for a turn when the fetched window is not empty, the weight evaluation
  succeeded, and the filter mode accepts the score.
\<close>

definition gate_passes ::
  "orchestrator_config \<Rightarrow> services \<Rightarrow> pystr \<Rightarrow> pystr \<Rightarrow> pystr \<Rightarrow> bool" where
  "gate_passes cfg sv user_id message_id message_content =
     (case window_at_fetch sv user_id (max_messages cfg) of
        Inl e \<Rightarrow> False
      | Inr (history_context, ids) \<Rightarrow>
          strip history_context \<noteq> [] \<and>
          (case evaluate_message sv user_id message_id message_content history_context of
             Inl e \<Rightarrow> False
           | Inr (ok, score, level) \<Rightarrow> ok \<and> filter_accepts cfg score))"

subsection \<open>Sample inputs\<close>

definition sample_config :: orchestrator_config where
  "sample_config =
     \<lparr>max_messages = 20, filter_mode = ascii ''selective'',
      high_threshold = 70, medium_threshold = 40\<rparr>"

text \<open>
  Services whose first window is \<open>(ctx, ids)\<close>, whose evaluation returns \<open>(ok, score)\<close>, and
  whose other calls succeed.
\<close>

definition sample_services :: "pystr \<Rightarrow> pystr list \<Rightarrow> bool \<Rightarrow> real \<Rightarrow> services" where
  "sample_services ctx ids ok score =
     \<lparr>window_at_fetch = (\<lambda>u n. Inr (ctx, ids)),
      evaluate_message = (\<lambda>u m c h. Inr (ok, score, ascii ''high'')),
      window_at_refetch = (\<lambda>u n. Inr (ascii ''later'', [])),
      build_impression = (\<lambda>u c h. Inr (True, [])),
      update_affection = (\<lambda>u c. Inr (True, [])),
      update_message_state = (\<lambda>u m i a. None)\<rparr>"

definition sample_turn :: resolution where
  "sample_turn = Turn (ascii ''U1'') (ascii ''m9'') (ascii ''hello'')"


section \<open>Outcome context relay: strings, markers and parsing\<close>

definition starts_with :: "pystr \<Rightarrow> pystr \<Rightarrow> bool" where
  "starts_with s p \<longleftrightarrow> take (length p) s = p"

text \<open>The test \<open>sub in s\<close> on strings.\<close>

fun contains :: "pystr \<Rightarrow> pystr \<Rightarrow> bool" where
  "contains [] sub = (sub = [])"
| "contains (x # xs) sub = (starts_with (x # xs) sub \<or> contains xs sub)"

text \<open>\<open>str(n)\<close> of an integer: decimal digits, with a minus sign below zero.\<close>

function str_nat :: "nat \<Rightarrow> pystr" where
  "str_nat n = (if n < 10 then [0x30 + n] else str_nat (n div 10) @ [0x30 + n mod 10])"
  by pat_completeness auto
termination
  by (relation "measure id") auto

definition str_int :: "int \<Rightarrow> pystr" where
  "str_int i = (if i < 0 then 0x2D # str_nat (nat (- i)) else str_nat (nat i))"

definition ACTION_CHECK_MARKER_PREFIX :: pystr where
  "ACTION_CHECK_MARKER_PREFIX = ascii ''ACTION_CHECK_JSON:''"

definition ACTION_CHECK_SENTINEL :: pystr where
  "ACTION_CHECK_SENTINEL = ascii ''[impression_affection_plugin:action_check]''"

definition ACTION_CHECK_CONTEXT_TTL_SECONDS :: real where
  "ACTION_CHECK_CONTEXT_TTL_SECONDS = 120"

definition ACTION_CHECK_PENDING_TAG_TTL_SECONDS :: real where
  "ACTION_CHECK_PENDING_TAG_TTL_SECONDS = 60"

subsection \<open>Values decoded from JSON, and the library functions applied to them\<close>

datatype pyfloat = Finite real | PosInf | NegInf | NaN

datatype json =
    JNull
  | JBool bool
  | JInt int
  | JFloat pyfloat
  | JStr pystr
  | JArr "json list"
  | JObj "(pystr \<times> json) list"

text \<open>
  The functions of Python's library whose behaviour is not spelled out here are parameters
  of the model, so every theorem holds whatever they return: \<open>json.loads\<close>, \<open>int\<close> of a
  string, \<open>str\<close> of a float, list or dict, \<open>str.lower\<close>, and the format \<open>.1f\<close>.
\<close>

record pylib =
  json_loads :: "pystr \<Rightarrow> exn + json"
  int_of_str :: "pystr \<Rightarrow> exn + int"
  repr_of :: "json \<Rightarrow> pystr"
  lower :: "pystr \<Rightarrow> pystr"
  format_1f :: "real \<Rightarrow> pystr"

text \<open>\<open>dict.get(key, default)\<close> on a decoded object.\<close>

definition dict_get :: "(pystr \<times> 'v) list \<Rightarrow> pystr \<Rightarrow> 'v \<Rightarrow> 'v" where
  "dict_get d key dflt = (case map_of d key of None \<Rightarrow> dflt | Some v \<Rightarrow> v)"

text \<open>\<open>str(v)\<close> of a decoded value.\<close>

definition str_of_json :: "pylib \<Rightarrow> json \<Rightarrow> pystr" where
  "str_of_json lib v =
     (case v of
        JNull \<Rightarrow> ascii ''None''
      | JBool b \<Rightarrow> (if b then ascii ''True'' else ascii ''False'')
      | JInt i \<Rightarrow> str_int i
      | JStr s \<Rightarrow> s
      | _ \<Rightarrow> repr_of lib v)"

text \<open>
  \<open>int(v)\<close> of a decoded value: \<open>None\<close>, lists and dicts raise \<open>TypeError\<close>, a float is
  truncated towards zero and raises when it is not finite.
\<close>

definition int_of_json :: "pylib \<Rightarrow> json \<Rightarrow> exn + int" where
  "int_of_json lib v =
     (case v of
        JNull \<Rightarrow> Inl (Exn (ascii ''TypeError''))
      | JBool b \<Rightarrow> Inr (if b then 1 else 0)
      | JInt i \<Rightarrow> Inr i
      | JFloat f \<Rightarrow>
          (case f of
             Finite r \<Rightarrow> Inr (if r \<ge> 0 then \<lfloor>r\<rfloor> else \<lceil>r\<rceil>)
           | NaN \<Rightarrow> Inl (Exn (ascii ''ValueError''))
           | _ \<Rightarrow> Inl (Exn (ascii ''OverflowError'')))
      | JStr s \<Rightarrow> int_of_str lib s
      | _ \<Rightarrow> Inl (Exn (ascii ''TypeError'')))"

subsection \<open>Finding the decision markers: \<open>re.findall\<close>\<close>

text \<open>
  The pattern is the marker prefix, \<open>\s*\<close>, and the group \<open>\{[^\r\n]*\}\<close>. A match at the
  head of \<open>s\<close>: the prefix, all the whitespace that follows (line breaks included), an
  opening brace, and then, since \<open>[^\r\n]*\<close> is greedy, everything up to the last closing
  brace before the next CR or LF. The result is the group and what follows the match.
\<close>

definition match_marker :: "pystr \<Rightarrow> (pystr \<times> pystr) option" where
  "match_marker s =
     (if starts_with s ACTION_CHECK_MARKER_PREFIX then
        (case dropWhile py_isspace (drop (length ACTION_CHECK_MARKER_PREFIX) s) of
           [] \<Rightarrow> None
         | b # bs \<Rightarrow>
             if b \<noteq> 0x7B then None
             else
               (let line = takeWhile (\<lambda>c. c \<noteq> 0xD \<and> c \<noteq> 0xA) bs;
                    inner = rev (dropWhile (\<lambda>c. c \<noteq> 0x7D) (rev line))
                in if inner = [] then None
                   else Some (0x7B # inner, drop (length inner) bs)))
      else None)"

lemma match_marker_shorter: "match_marker s = Some (g, rest) \<Longrightarrow> length rest < length s"
proof -
  assume m: "match_marker s = Some (g, rest)"
  then obtain b bs where
    d: "dropWhile py_isspace (drop (length ACTION_CHECK_MARKER_PREFIX) s) = b # bs"
    and r: "length rest \<le> length bs"
    by (auto simp: match_marker_def Let_def split: if_splits list.splits)
  have "length (dropWhile py_isspace (drop (length ACTION_CHECK_MARKER_PREFIX) s)) \<le> length s"
    by (rule order_trans [OF length_dropWhile_le]) simp
  with d r show ?thesis by simp
qed

text \<open>\<open>re.findall\<close>: the groups of the matches, left to right, without overlap.\<close>

function findall_marker :: "pystr \<Rightarrow> pystr list" where
  "findall_marker [] = []"
| "findall_marker (x # xs) =
     (case match_marker (x # xs) of
        None \<Rightarrow> findall_marker xs
      | Some (g, rest) \<Rightarrow> g # findall_marker rest)"
  by pat_completeness auto
termination
  by (relation "measure length") (auto dest: match_marker_shorter)

subsection \<open>Removing the marker lines: \<open>re.sub\<close>\<close>

text \<open>
  The pattern is \<open>(?m)^\s*\<close>, the marker prefix, \<open>.*\<close> and \<open>(?:\r?\n)?\<close>. A match at a line
  start \<open>s\<close>: all leading whitespace (line breaks included), the prefix, the rest of that
  line up to LF (the dot matches CR), and the LF when there is one. The result is what
  follows the match.
\<close>

definition match_marker_line :: "pystr \<Rightarrow> pystr option" where
  "match_marker_line s =
     (let t = dropWhile py_isspace s in
      if starts_with t ACTION_CHECK_MARKER_PREFIX then
        (case dropWhile (\<lambda>c. c \<noteq> 0xA) (drop (length ACTION_CHECK_MARKER_PREFIX) t) of
           [] \<Rightarrow> Some []
         | nl # rest \<Rightarrow> Some rest)
      else None)"

lemma match_marker_line_shorter:
  "match_marker_line (x # xs) = Some rest \<Longrightarrow> length rest < length (x # xs)"
proof -
  assume m: "match_marker_line (x # xs) = Some rest"
  let ?t = "dropWhile py_isspace (x # xs)"
  let ?u = "dropWhile (\<lambda>c. c \<noteq> 0xA) (drop (length ACTION_CHECK_MARKER_PREFIX) ?t)"
  from m have r: "rest = [] \<or> (\<exists>nl. ?u = nl # rest)"
    by (auto simp: match_marker_line_def Let_def split: if_splits list.splits)
  have "length ?u \<le> length (drop (length ACTION_CHECK_MARKER_PREFIX) ?t)"
    by (rule length_dropWhile_le)
  also have "\<dots> \<le> length ?t" by simp
  also have "\<dots> \<le> length (x # xs)" by (rule length_dropWhile_le)
  finally have "length ?u \<le> length (x # xs)" .
  with r show ?thesis by auto
qed

text \<open>
  The scan of \<open>re.sub\<close>: \<open>bol\<close> tells whether the position is the start of the text or
  follows an LF, where \<open>^\<close> matches. A match is deleted and the scan goes on behind it (at a
  line start again, or at the end of the text); elsewhere the character is kept.
\<close>

function strip_scan :: "bool \<Rightarrow> pystr \<Rightarrow> pystr" where
  "strip_scan bol [] = []"
| "strip_scan bol (x # xs) =
     (case (if bol then match_marker_line (x # xs) else None) of
        Some rest \<Rightarrow> strip_scan True rest
      | None \<Rightarrow> x # strip_scan (x = 0xA) xs)"
  by pat_completeness auto
termination
  by (relation "measure (\<lambda>(bol, s). length s)")
     (auto split: if_splits dest: match_marker_line_shorter)

definition strip_action_check_marker_lines :: "pystr \<Rightarrow> pystr" where
  "strip_action_check_marker_lines text = (if text = [] then text else strip_scan True text)"


subsection \<open>Parsing the latest decision marker\<close>

record action_check_context =
  ctx_stream_id :: pystr
  interaction :: pystr
  chance :: int
  result :: pystr
  created_at :: real

definition success_tokens :: "pystr list" where
  "success_tokens = [ascii ''ok'', ascii ''pass'', ascii ''passed'', ascii ''success'']"

definition fail_tokens :: "pystr list" where
  "fail_tokens = [ascii ''fail'', ascii ''failed'', ascii ''failure'']"

text \<open>
  Lines 95--138, with the reading of the clock as the argument \<open>now\<close>. A decoded object is
  the list of its (key, value) pairs, each key once.
\<close>

definition parse_action_check_marker :: "pylib \<Rightarrow> real \<Rightarrow> pystr \<Rightarrow> action_check_context option" where
  "parse_action_check_marker lib now text =
     (if text = [] then None
      else
        (case findall_marker text of
           [] \<Rightarrow> None
         | m # ms \<Rightarrow>
             (case json_loads lib (strip (last (m # ms))) of
                Inl e \<Rightarrow> None
              | Inr payload \<Rightarrow>
                  (case payload of
                     JObj d \<Rightarrow>
                       (let interaction_text =
                              strip (str_of_json lib (dict_get d (ascii ''interaction'') (JStr [])));
                            result_text =
                              lower lib (strip (str_of_json lib (dict_get d (ascii ''result'') (JStr []))));
                            chance_raw = dict_get d (ascii ''chance'') JNull
                        in (case int_of_json lib chance_raw of
                              Inl e \<Rightarrow> None
                            | Inr chance_value \<Rightarrow>
                                if result_text \<in> set success_tokens \<or> result_text \<in> set fail_tokens
                                then
                                  (if interaction_text = [] then None
                                   else Some \<lparr>ctx_stream_id = [],
                                              interaction = interaction_text,
                                              chance = max 0 (min 100 chance_value),
                                              result = (if result_text \<in> set success_tokens
                                                        then ascii ''success'' else ascii ''fail''),
                                              created_at = now\<rparr>)
                                else None))
                   | _ \<Rightarrow> None))))"

definition zh_success :: pystr where
  "zh_success = [0x6210, 0x529f]"

definition zh_fail :: pystr where
  "zh_fail = [0x5931, 0x8d25]"

definition zh_result :: "pystr \<Rightarrow> pystr" where
  "zh_result r = (if r = ascii ''success'' then zh_success else zh_fail)"

text \<open>Lines 147--149: the tag is the visible marker, a space, the chance, \<open>"% "\<close>, the result, \<open>"]"\<close>.\<close>

definition tag_visible_marker :: pystr where
  "tag_visible_marker = [0x5b, 0x52a8, 0x4f5c, 0x68c0, 0x5b9a, 0xff1a]"

definition format_action_check_tag :: "int \<Rightarrow> pystr \<Rightarrow> pystr" where
  "format_action_check_tag chance_value r =
     tag_visible_marker @ [0x20] @ str_int chance_value @ [0x25, 0x20] @ zh_result r @ [0x5D]"


section \<open>Outcome context relay: the four handlers\<close>

subsection \<open>Host objects\<close>

text \<open>
  A value the host may hand over in an attribute: \<open>None\<close>, a bool, an int, a string, or any
  other object, which the handlers only observe through its truth value and its \<open>str\<close>.
\<close>

datatype pyval = PNone | PBool bool | PInt int | PStr pystr | PObj bool pystr

definition truthy :: "pyval \<Rightarrow> bool" where
  "truthy v = (case v of PNone \<Rightarrow> False | PBool b \<Rightarrow> b | PInt i \<Rightarrow> i \<noteq> 0 | PStr s \<Rightarrow> s \<noteq> []
               | PObj t s \<Rightarrow> t)"

definition str_of :: "pyval \<Rightarrow> pystr" where
  "str_of v = (case v of PNone \<Rightarrow> ascii ''None''
               | PBool b \<Rightarrow> (if b then ascii ''True'' else ascii ''False'')
               | PInt i \<Rightarrow> str_int i | PStr s \<Rightarrow> s | PObj t s \<Rightarrow> s)"

text \<open>A content segment, seen through \<open>getattr(seg, "type", None)\<close> and \<open>getattr(seg, "data", None)\<close>.\<close>

record segment =
  seg_type :: pyval
  seg_data :: pyval

text \<open>
  The message object of a hook. Reading an attribute returns a value or raises (a missing
  attribute raises \<open>AttributeError\<close>); the two modifying methods may raise as well. For
  \<open>message_base_info\<close> the value is the dict, and for \<open>message_segments\<close> the list, where
  \<open>None\<close> and the empty list are both read as \<open>[]\<close> (the code only tests them with \<open>not\<close>).
  The argument of a handler is \<open>None\<close> or such an object.
\<close>

record message =
  llm_prompt :: "exn + pyval"
  stream_id :: "exn + pyval"
  message_base_info :: "exn + (pystr \<times> pyval) list"
  message_segments :: "exn + segment list"
  modify_llm_prompt_raises :: "exn option"
  modify_message_segments_raises :: "exn option"

text \<open>The tuple a hook returns; its fourth component is never set by this plugin.\<close>

type_synonym hook_result = "bool \<times> bool \<times> pystr option \<times> unit option \<times> message option"

definition pass_through :: hook_result where
  "pass_through = (True, True, None, None, None)"

record relay_config =
  enabled :: bool
  show_roll_result :: bool

text \<open>The two module-level dicts, keyed by stream id.\<close>

record relay_state =
  context_by_stream :: "pystr \<rightharpoonup> action_check_context"
  pending_tag_by_stream :: "pystr \<rightharpoonup> (pystr \<times> real)"

text \<open>
  What a call of a handler leaves behind: the dicts, the message object (modified in place
  or not), the returned tuple, and the exceptions its \<open>except\<close> clause logged.
\<close>

record handler_out =
  state_after :: relay_state
  message_after :: "message option"
  returned :: hook_result
  logged :: "exn list"

text \<open>
  The body of a handler ends by returning a tuple or by raising; \<open>try_except\<close> is the
  enclosing \<open>try: ... except Exception\<close>, which logs and returns the pass-through tuple.
\<close>

definition try_except :: "relay_state \<times> message option \<times> (exn + hook_result) \<Rightarrow> handler_out" where
  "try_except b =
     (case b of
        (st, m, Inr r) \<Rightarrow> \<lparr>state_after = st, message_after = m, returned = r, logged = []\<rparr>
      | (st, m, Inl e) \<Rightarrow> \<lparr>state_after = st, message_after = m, returned = pass_through, logged = [e]\<rparr>)"

text \<open>Lines 86--92, with the reading of the clock as the argument \<open>now\<close>.\<close>

definition clean_expired_action_check_state :: "real \<Rightarrow> pystr \<Rightarrow> relay_state \<Rightarrow> relay_state" where
  "clean_expired_action_check_state now sid st =
     (let st1 = (case context_by_stream st sid of
                   Some ctx \<Rightarrow>
                     if now - created_at ctx > ACTION_CHECK_CONTEXT_TTL_SECONDS
                     then st\<lparr>context_by_stream := (context_by_stream st)(sid := None)\<rparr>
                     else st
                 | None \<Rightarrow> st)
      in (case pending_tag_by_stream st1 sid of
            Some tag_entry \<Rightarrow>
              if now - snd tag_entry > ACTION_CHECK_PENDING_TAG_TTL_SECONDS
              then st1\<lparr>pending_tag_by_stream := (pending_tag_by_stream st1)(sid := None)\<rparr>
              else st1
          | None \<Rightarrow> st1))"


subsection \<open>Point A: \<open>ActionCheckPlannerPromptHandler.execute\<close>\<close>

text \<open>
  Parts of the repository outside \<open>plugin.py\<close> that Point A calls: \<open>normalize_user_id\<close> of
  \<open>MessageService\<close>, and the lookup of the user's row in \<open>UserImpression\<close>, which gives
  the score and the level of a row whose score is set.
\<close>

record plugin_env =
  normalize_user_id :: "pystr \<Rightarrow> exn + pystr"
  select_impression :: "pystr \<Rightarrow> exn + (real \<times> pyval) option"

definition note_planner :: pystr where
  "note_planner =
     [0x52a8, 0x4f5c, 0x68c0, 0x5b9a, 0x20, 0x70, 0x6c, 0x61, 0x6e, 0x6e, 0x65, 0x72, 0x20, 0x534f,
      0x8bae, 0x5df2, 0x6ce8, 0x5165]"

definition default_level :: pystr where
  "default_level = [0x4e00, 0x822c]"

text \<open>The fixed text between the sentinel and the platform of the user.\<close>

definition planner_protocol_text :: pystr where
  "planner_protocol_text =
  [0xa, 0x3010, 0x52a8, 0x4f5c, 0x68c0, 0x5b9a, 0xff08, 0x61, 0x63, 0x74, 0x69, 0x6f, 0x6e, 0x5f, 0x63, 0x68,
   0x65, 0x63, 0x6b, 0xff09, 0x63d2, 0x4ef6, 0x534f, 0x8bae, 0x3011, 0xa, 0x5f53, 0x4f60, 0x5224, 0x65ad, 0x201c, 0x7528,
   0x6237, 0x6b63, 0x5728, 0x5c1d, 0x8bd5, 0x4e0e, 0x9ea6, 0x9ea6, 0x8fdb, 0x884c, 0x76f4, 0x63a5, 0x52a8, 0x4f5c, 0x4e92, 0x52a8,
   0x201d, 0xff08, 0x4f8b, 0x5982, 0xff1a, 0x62b1, 0x62b1, 0x3001, 0x4eb2, 0x4eb2, 0x3001, 0x6478, 0x5934, 0x3001, 0x72, 0x75,
   0x61, 0x20, 0x7b49, 0xff09, 0x65f6, 0xff1a, 0xa, 0x31, 0x29, 0x20, 0x8bf7, 0x5728, 0x540c, 0x4e00, 0x8f6e, 0x89c4,
   0x5212, 0x4e2d, 0x540c, 0x65f6, 0x9009, 0x62e9, 0x20, 0x72, 0x65, 0x70, 0x6c, 0x79, 0x20, 0x4e0e, 0x20, 0x61,
   0x63, 0x74, 0x69, 0x6f, 0x6e, 0x5f, 0x63, 0x68, 0x65, 0x63, 0x6b, 0xff08, 0x4e0d, 0x8981, 0x53ea, 0x9009,
   0x20, 0x61, 0x63, 0x74, 0x69, 0x6f, 0x6e, 0x5f, 0x63, 0x68, 0x65, 0x63, 0x6b, 0xff09, 0x3002, 0xa,
   0x32, 0x29, 0x20, 0x61, 0x63, 0x74, 0x69, 0x6f, 0x6e, 0x5f, 0x63, 0x68, 0x65, 0x63, 0x6b, 0x20,
   0x7684, 0x20, 0x4a, 0x53, 0x4f, 0x4e, 0x20, 0x9700, 0x8981, 0x5305, 0x542b, 0x5b57, 0x6bb5, 0xff1a, 0xa, 0x20,
   0x20, 0x20, 0x2d, 0x20, 0x69, 0x6e, 0x74, 0x65, 0x72, 0x61, 0x63, 0x74, 0x69, 0x6f, 0x6e, 0x3a,
   0x20, 0x52a8, 0x4f5c, 0x540d, 0xff08, 0x5b57, 0x7b26, 0x4e32, 0xff09, 0xa, 0x20, 0x20, 0x20, 0x2d, 0x20, 0x63,
   0x68, 0x61, 0x6e, 0x63, 0x65, 0x3a, 0x20, 0x6210, 0x529f, 0x7387, 0xff08, 0x30, 0x2d, 0x31, 0x30, 0x30,
   0x20, 0x6574, 0x6570, 0xff0c, 0x5df2, 0x7efc, 0x5408, 0x57fa, 0x7840, 0x6982, 0x7387, 0x2f, 0x597d, 0x611f, 0x5ea6, 0x2f,
   0x4e0a, 0x4e0b, 0x6587, 0xff09, 0xa, 0x20, 0x20, 0x20, 0x2d, 0x20, 0x72, 0x65, 0x73, 0x75, 0x6c, 0x74,
   0x3a, 0x20, 0x73, 0x75, 0x63, 0x63, 0x65, 0x73, 0x73, 0x20, 0x6216, 0x20, 0x66, 0x61, 0x69, 0x6c,
   0xff08, 0x7531, 0x4f60, 0x6839, 0x636e, 0x20, 0x63, 0x68, 0x61, 0x6e, 0x63, 0x65, 0x20, 0x4e0e, 0x4e0a, 0x4e0b,
   0x6587, 0x76f4, 0x63a5, 0x51b3, 0x5b9a, 0xff0c, 0x4e0d, 0x8981, 0x8ba9, 0x7a0b, 0x5e8f, 0x968f, 0x673a, 0xff09, 0xa, 0x33,
   0x29, 0x20, 0x5fc5, 0x987b, 0x5728, 0x20, 0x4a, 0x53, 0x4f, 0x4e, 0x20, 0x4ee3, 0x7801, 0x5757, 0x4e4b, 0x524d,
   0x7684, 0x63a8, 0x7406, 0x6587, 0x672c, 0x672b, 0x5c3e, 0x8ffd, 0x52a0, 0x4e00, 0x884c, 0xff08, 0x4ec5, 0x5f53, 0x9009, 0x62e9,
   0x20, 0x61, 0x63, 0x74, 0x69, 0x6f, 0x6e, 0x5f, 0x63, 0x68, 0x65, 0x63, 0x6b, 0x20, 0x65f6, 0x8f93,
   0x51fa, 0xff09, 0xff1a, 0xa, 0x20, 0x20, 0x20, 0x41, 0x43, 0x54, 0x49, 0x4f, 0x4e, 0x5f, 0x43, 0x48,
   0x45, 0x43, 0x4b, 0x5f, 0x4a, 0x53, 0x4f, 0x4e, 0x3a, 0x20, 0x7b, 0x22, 0x69, 0x6e, 0x74, 0x65,
   0x72, 0x61, 0x63, 0x74, 0x69, 0x6f, 0x6e, 0x22, 0x3a, 0x22, 0x62b1, 0x62b1, 0x22, 0x2c, 0x22, 0x63,
   0x68, 0x61, 0x6e, 0x63, 0x65, 0x22, 0x3a, 0x38, 0x30, 0x2c, 0x22, 0x72, 0x65, 0x73, 0x75, 0x6c,
   0x74, 0x22, 0x3a, 0x22, 0x66, 0x61, 0x69, 0x6c, 0x22, 0x7d, 0xa, 0x20, 0x20, 0x20, 0x2d, 0x20,
   0x8fd9, 0x884c, 0x5fc5, 0x987b, 0x662f, 0x5355, 0x884c, 0x4e25, 0x683c, 0x20, 0x4a, 0x53, 0x4f, 0x4e, 0xa, 0x20,
   0x20, 0x20, 0x2d, 0x20, 0x4e0d, 0x8981, 0x8f93, 0x51fa, 0x9664, 0x8fd9, 0x4e00, 0x884c, 0x4e4b, 0x5916, 0x7684, 0x5176,
   0x4ed6, 0x20, 0x41, 0x43, 0x54, 0x49, 0x4f, 0x4e, 0x5f, 0x43, 0x48, 0x45, 0x43, 0x4b, 0x5f, 0x4a,
   0x53, 0x4f, 0x4e, 0x20, 0x6807, 0x8bb0, 0xa, 0xa, 0x5f53, 0x524d, 0x7528, 0x6237, 0x4fe1, 0x606f, 0xff08, 0x4f9b,
   0x4f60, 0x53c2, 0x8003, 0xff09, 0xff1a, 0xa, 0x2d, 0x20, 0x70, 0x6c, 0x61, 0x74, 0x66, 0x6f, 0x72, 0x6d,
   0x3a, 0x20]"

definition remark_shown :: pystr where
  "remark_shown =
  [0x673a, 0x5668, 0x4eba, 0x4f1a, 0x5728, 0x6700, 0x7ec8, 0x56de, 0x590d, 0x5f00, 0x5934, 0x81ea, 0x52a8, 0x52a0, 0x4e0a, 0x68c0,
   0x5b9a, 0x6807, 0x7b7e, 0xff0c, 0x4f60, 0x65e0, 0x9700, 0x5728, 0x56de, 0x590d, 0x6b63, 0x6587, 0x91cc, 0x590d, 0x8ff0, 0x8be5,
   0x6807, 0x7b7e, 0x3002]"

definition remark_hidden :: pystr where
  "remark_hidden =
  [0x5f53, 0x524d, 0x914d, 0x7f6e, 0x5173, 0x95ed, 0x4e86, 0x68c0, 0x5b9a, 0x6807, 0x7b7e, 0x5c55, 0x793a, 0x3002]"

text \<open>
  Lines 188--212: \<open>extra_block\<close>, the f-string after \<open>strip("\n")\<close>. It begins with the
  sentinel and ends with the remark.
\<close>

definition extra_block :: "pylib \<Rightarrow> bool \<Rightarrow> pystr \<Rightarrow> pystr \<Rightarrow> real \<Rightarrow> pystr \<Rightarrow> pystr" where
  "extra_block lib show platform raw_user_id affection_score affection_level =
     ACTION_CHECK_SENTINEL @ planner_protocol_text @ platform @
     ascii ''\<newline>- user_id: '' @ raw_user_id @
     ascii ''\<newline>- affection_score: '' @ format_1f lib affection_score @
     ascii ''/100\<newline>- affection_level: '' @ affection_level @
     [0xa, 0xa, 0x5907, 0x6ce8, 0xff1a] @ (if show then remark_shown else remark_hidden)"

text \<open>\<open>str(v or "")\<close>.\<close>

definition str_or_empty :: "pyval \<Rightarrow> pystr" where
  "str_or_empty v = str_of (if truthy v then v else PStr [])"

text \<open>Lines 178--186: the score and level shown, with the defaults when the lookup fails.\<close>

definition affection_of :: "plugin_env \<Rightarrow> pystr \<Rightarrow> real \<times> pystr" where
  "affection_of env user_id =
     (case select_impression env user_id of
        Inr (Some (score, level)) \<Rightarrow>
          (score, str_of (if truthy level then level else PStr default_level))
      | _ \<Rightarrow> (50, default_level))"

definition planner_body ::
  "relay_config \<Rightarrow> pylib \<Rightarrow> plugin_env \<Rightarrow> relay_state \<Rightarrow> message option \<Rightarrow>
   relay_state \<times> message option \<times> (exn + hook_result)" where
  "planner_body cfg lib env st msg =
     (if \<not> enabled cfg then (st, msg, Inr pass_through)
      else case msg of
        None \<Rightarrow> (st, msg, Inr pass_through)
      | Some m \<Rightarrow>
         (case llm_prompt m of
            Inl e \<Rightarrow> (st, msg, Inl e)
          | Inr p \<Rightarrow>
              if \<not> truthy p then (st, msg, Inr pass_through)
              else
               (case p of
                PStr prompt \<Rightarrow>
                  if contains prompt ACTION_CHECK_SENTINEL then (st, msg, Inr pass_through)
                  else
                    (case message_base_info m of
                       Inl e \<Rightarrow> (st, msg, Inl e)
                     | Inr info \<Rightarrow>
                         let platform = str_or_empty (dict_get info (ascii ''platform'') (PStr []));
                             raw_user_id = str_or_empty (dict_get info (ascii ''user_id'') (PStr []))
                         in (case normalize_user_id env raw_user_id of
                               Inl e \<Rightarrow> (st, msg, Inl e)
                             | Inr user_id \<Rightarrow>
                                 let (affection_score, affection_level) = affection_of env user_id;
                                     new_prompt =
                                       rstrip prompt @ [0xA, 0xA] @
                                       extra_block lib (show_roll_result cfg) platform raw_user_id
                                         affection_score affection_level
                                 in (case modify_llm_prompt_raises m of
                                       Some e \<Rightarrow> (st, msg, Inl e)
                                     | None \<Rightarrow>
                                         let m' = m\<lparr>llm_prompt := Inr (PStr new_prompt)\<rparr>
                                         in (st, Some m',
                                             Inr (True, True, Some note_planner, None, Some m')))))
              | _ \<Rightarrow> (st, msg, Inl (Exn (ascii ''TypeError''))))))"

definition planner_execute ::
  "relay_config \<Rightarrow> pylib \<Rightarrow> plugin_env \<Rightarrow> relay_state \<Rightarrow> message option \<Rightarrow> handler_out" where
  "planner_execute cfg lib env st msg = try_except (planner_body cfg lib env st msg)"

subsection \<open>Point B: \<open>ActionCheckPostLLMHandler.execute\<close>\<close>

definition note_post_llm :: pystr where
  "note_post_llm =
     [0x52a8, 0x4f5c, 0x68c0, 0x5b9a, 0x7ed3, 0x679c, 0x5df2, 0x6ce8, 0x5165, 0x20, 0x72, 0x65, 0x70,
      0x6c, 0x79, 0x65, 0x72, 0x20, 0x70, 0x72, 0x6f, 0x6d, 0x70, 0x74]"

definition outcome_closing_text :: pystr where
  "outcome_closing_text =
  [0xa, 0xa, 0x4ee5, 0x4e0a, 0x4fe1, 0x606f, 0x4ec5, 0x4f9b, 0x4f60, 0x751f, 0x6210, 0x56de, 0x590d, 0x65f6, 0x53c2, 0x8003,
   0x3002, 0xa, 0x6ce8, 0x610f, 0xff1a, 0x4e0d, 0x8981, 0x5728, 0x56de, 0x590d, 0x4e2d, 0x8f93, 0x51fa, 0x20, 0x41, 0x43,
   0x54, 0x49, 0x4f, 0x4e, 0x5f, 0x43, 0x48, 0x45, 0x43, 0x4b, 0x5f, 0x4a, 0x53, 0x4f, 0x4e, 0x20,
   0x6216, 0x5176, 0x4ed6, 0x5185, 0x90e8, 0x6807, 0x8bb0, 0x3002]"

text \<open>Lines 251--264: \<open>injected\<close>, the outcome block, after \<open>strip("\n")\<close>.\<close>

definition injected :: "action_check_context \<Rightarrow> pystr" where
  "injected parsed =
     ACTION_CHECK_SENTINEL @
     [0xa, 0x3010, 0x52a8, 0x4f5c, 0x68c0, 0x5b9a, 0x7ed3, 0x679c, 0x3011, 0xa, 0x52a8, 0x4f5c, 0xff1a] @
     interaction parsed @
     [0xa, 0x6210, 0x529f, 0x7387, 0xff1a] @ str_int (chance parsed) @
     [0x25, 0xa, 0x7ed3, 0x679c, 0xff1a] @ zh_result (result parsed) @
     outcome_closing_text"

definition post_llm_body ::
  "relay_config \<Rightarrow> pylib \<Rightarrow> real \<Rightarrow> relay_state \<Rightarrow> message option \<Rightarrow>
   relay_state \<times> message option \<times> (exn + hook_result)" where
  "post_llm_body cfg lib now st msg =
     (if \<not> enabled cfg then (st, msg, Inr pass_through)
      else case msg of
        None \<Rightarrow> (st, msg, Inr pass_through)
      | Some m \<Rightarrow>
         (case llm_prompt m of
            Inl e \<Rightarrow> (st, msg, Inl e)
          | Inr p \<Rightarrow>
              if \<not> truthy p then (st, msg, Inr pass_through)
              else
                (case stream_id m of
                   Inl e \<Rightarrow> (st, msg, Inl e)
                 | Inr sidv \<Rightarrow>
                     if \<not> truthy sidv then (st, msg, Inr pass_through)
                     else
                       let sid = str_of sidv;
                           st1 = clean_expired_action_check_state now sid st
                       in (case p of
                             PStr prompt \<Rightarrow>
                               (case parse_action_check_marker lib now prompt of
                                  None \<Rightarrow>
                                    (st1\<lparr>context_by_stream := (context_by_stream st1)(sid := None)\<rparr>,
                                     msg, Inr pass_through)
                                | Some parsed0 \<Rightarrow>
                                    let parsed = parsed0\<lparr>ctx_stream_id := sid\<rparr>;
                                        st2 = st1\<lparr>context_by_stream :=
                                                     (context_by_stream st1)(sid \<mapsto> parsed)\<rparr>;
                                        cleaned_prompt = strip_action_check_marker_lines prompt;
                                        new_prompt = rstrip cleaned_prompt @ [0xA, 0xA] @ injected parsed
                                    in (case modify_llm_prompt_raises m of
                                          Some e \<Rightarrow> (st2, msg, Inl e)
                                        | None \<Rightarrow>
                                            let m' = m\<lparr>llm_prompt := Inr (PStr new_prompt)\<rparr>
                                            in (st2, Some m',
                                                Inr (True, True, Some note_post_llm, None, Some m'))))
                           | _ \<Rightarrow> (st1, msg, Inl (Exn (ascii ''TypeError'')))))))"

definition post_llm_execute ::
  "relay_config \<Rightarrow> pylib \<Rightarrow> real \<Rightarrow> relay_state \<Rightarrow> message option \<Rightarrow> handler_out" where
  "post_llm_execute cfg lib now st msg = try_except (post_llm_body cfg lib now st msg)"

subsection \<open>Point C: \<open>ActionCheckAfterLLMHandler.execute\<close>\<close>

definition note_after_llm :: pystr where
  "note_after_llm = [0x52a8, 0x4f5c, 0x68c0, 0x5b9a, 0x6807, 0x7b7e, 0x5df2, 0x51c6, 0x5907]"

definition after_llm_body ::
  "relay_config \<Rightarrow> real \<Rightarrow> relay_state \<Rightarrow> message option \<Rightarrow>
   relay_state \<times> message option \<times> (exn + hook_result)" where
  "after_llm_body cfg now st msg =
     (if \<not> enabled cfg \<or> \<not> show_roll_result cfg then (st, msg, Inr pass_through)
      else case msg of
        None \<Rightarrow> (st, msg, Inr pass_through)
      | Some m \<Rightarrow>
         (case stream_id m of
            Inl e \<Rightarrow> (st, msg, Inl e)
          | Inr sidv \<Rightarrow>
              if \<not> truthy sidv then (st, msg, Inr pass_through)
              else
                let sid = str_of sidv;
                    st1 = clean_expired_action_check_state now sid st
                in (case context_by_stream st1 sid of
                      None \<Rightarrow> (st1, msg, Inr pass_through)
                    | Some ctx \<Rightarrow>
                        let tag = format_action_check_tag (chance ctx) (result ctx)
                        in (st1\<lparr>pending_tag_by_stream :=
                                   (pending_tag_by_stream st1)(sid \<mapsto> (tag, now))\<rparr>,
                            msg, Inr (True, True, Some note_after_llm, None, None)))))"

definition after_llm_execute ::
  "relay_config \<Rightarrow> real \<Rightarrow> relay_state \<Rightarrow> message option \<Rightarrow> handler_out" where
  "after_llm_execute cfg now st msg = try_except (after_llm_body cfg now st msg)"

subsection \<open>Point D: \<open>ActionCheckPostSendPrefixHandler.execute\<close>\<close>

definition note_post_send :: pystr where
  "note_post_send =
     [0x52a8, 0x4f5c, 0x68c0, 0x5b9a, 0x6807, 0x7b7e, 0x5df2, 0x52a0, 0x5230, 0x53d1, 0x9001, 0x6d88,
      0x606f]"

text \<open>
  Lines 331--346, the loop over the segments: segments that are not of type \<open>"text"\<close> or
  whose data is not a string are passed over; the first other one ends the loop, either
  because it already starts with the visible marker or after the tag has been put in front
  of its data.
\<close>

datatype scan = NoTextSegment | AlreadyTagged | Prefixed "segment list"

fun prefix_first_text :: "pystr \<Rightarrow> segment list \<Rightarrow> scan" where
  "prefix_first_text tag [] = NoTextSegment"
| "prefix_first_text tag (seg # segs) =
     (case (if seg_type seg \<noteq> PStr (ascii ''text'') then None
            else (case seg_data seg of PStr text \<Rightarrow> Some text | _ \<Rightarrow> None)) of
        None \<Rightarrow>
          (case prefix_first_text tag segs of
             Prefixed segs' \<Rightarrow> Prefixed (seg # segs')
           | other \<Rightarrow> other)
      | Some text \<Rightarrow>
          if starts_with (lstrip text) tag_visible_marker then AlreadyTagged
          else Prefixed (seg\<lparr>seg_data := PStr (rstrip (tag @ [0x20] @ text))\<rparr> # segs))"

definition clear_stream :: "pystr \<Rightarrow> relay_state \<Rightarrow> relay_state" where
  "clear_stream sid st =
     st\<lparr>pending_tag_by_stream := (pending_tag_by_stream st)(sid := None),
        context_by_stream := (context_by_stream st)(sid := None)\<rparr>"

definition post_send_body ::
  "relay_config \<Rightarrow> real \<Rightarrow> relay_state \<Rightarrow> message option \<Rightarrow>
   relay_state \<times> message option \<times> (exn + hook_result)" where
  "post_send_body cfg now st msg =
     (if \<not> enabled cfg \<or> \<not> show_roll_result cfg then (st, msg, Inr pass_through)
      else case msg of
        None \<Rightarrow> (st, msg, Inr pass_through)
      | Some m \<Rightarrow>
         (case stream_id m of
            Inl e \<Rightarrow> (st, msg, Inl e)
          | Inr sidv \<Rightarrow>
              if \<not> truthy sidv then (st, msg, Inr pass_through)
              else
                let sid = str_of sidv;
                    st1 = clean_expired_action_check_state now sid st
                in (case pending_tag_by_stream st1 sid of
                      None \<Rightarrow> (st1, msg, Inr pass_through)
                    | Some pending \<Rightarrow>
                        (case message_segments m of
                           Inl e \<Rightarrow> (st1, msg, Inl e)
                         | Inr segs \<Rightarrow>
                             if segs = [] then (st1, msg, Inr pass_through)
                             else
                               (case prefix_first_text (fst pending) segs of
                                  NoTextSegment \<Rightarrow> (st1, msg, Inr pass_through)
                                | AlreadyTagged \<Rightarrow> (clear_stream sid st1, msg, Inr pass_through)
                                | Prefixed segs' \<Rightarrow>
                                    let m' = m\<lparr>message_segments := Inr segs'\<rparr>
                                    in (case modify_message_segments_raises m of
                                          Some e \<Rightarrow> (st1, Some m', Inl e)
                                        | None \<Rightarrow>
                                            (clear_stream sid st1, Some m',
                                             Inr (True, True, Some note_post_send, None, Some m'))))))))"

definition post_send_execute ::
  "relay_config \<Rightarrow> real \<Rightarrow> relay_state \<Rightarrow> message option \<Rightarrow> handler_out" where
  "post_send_execute cfg now st msg = try_except (post_send_body cfg now st msg)"

subsection \<open>The entry point of the orchestrator: \<open>ImpressionUpdateHandler.execute\<close>\<close>




text \<open>
  Lines 393--404, the detached task: \<open>handle\<close> inside a \<open>try\<close> of its own. The result is
  what \<open>handle\<close> leaves behind, or nothing when the initialisation raises.
\<close>

definition async_update_impression ::
  "exn option \<Rightarrow> orchestrator_config \<Rightarrow> services \<Rightarrow> ledger \<Rightarrow> resolution \<Rightarrow> handle_out option" where
  "async_update_impression init_raises cfg sv L event_data =
     (case init_raises of
        Some e \<Rightarrow> None
      | None \<Rightarrow> Some (handle cfg sv L event_data))"


subsection \<open>The words of the specification for the relay\<close>

text \<open>A text-bearing segment: its type is \<open>"text"\<close> and its payload is a string.\<close>

definition is_text_segment :: "segment \<Rightarrow> bool" where
  "is_text_segment seg \<longleftrightarrow>
     seg_type seg = PStr (ascii ''text'') \<and> (case seg_data seg of PStr t \<Rightarrow> True | _ \<Rightarrow> False)"

text \<open>Expiry: the age since creation exceeds the TTL (120 s for a context, 60 s for a tag).\<close>

definition expired_context :: "real \<Rightarrow> action_check_context \<Rightarrow> bool" where
  "expired_context now ctx \<longleftrightarrow> now - created_at ctx > 120"

definition expired_tag :: "real \<Rightarrow> pystr \<times> real \<Rightarrow> bool" where
  "expired_tag now entry \<longleftrightarrow> now - snd entry > 60"

subsection \<open>Sample inputs for the relay\<close>

definition sample_relay_config :: relay_config where
  "sample_relay_config = \<lparr>enabled = True, show_roll_result = True\<rparr>"

definition sample_message :: "pystr \<Rightarrow> segment list \<Rightarrow> message" where
  "sample_message prompt segs =
     \<lparr>llm_prompt = Inr (PStr prompt), stream_id = Inr (PStr (ascii ''s1'')),
      message_base_info = Inr [], message_segments = Inr segs,
      modify_llm_prompt_raises = None, modify_message_segments_raises = None\<rparr>"

definition sample_context :: "real \<Rightarrow> action_check_context" where
  "sample_context t =
     \<lparr>ctx_stream_id = ascii ''s1'', interaction = ascii ''hug'', chance = 80,
      result = ascii ''fail'', created_at = t\<rparr>"

definition sample_state :: "action_check_context option \<Rightarrow> (pystr \<times> real) option \<Rightarrow> relay_state" where
  "sample_state c p =
     \<lparr>context_by_stream = (\<lambda>k. if k = ascii ''s1'' then c else None),
      pending_tag_by_stream = (\<lambda>k. if k = ascii ''s1'' then p else None)\<rparr>"

text \<open>
  A library for the samples: \<open>json.loads\<close> is given by the table of the texts it is
  applied to (any other text is rejected), \<open>str.lower\<close> is the lower-casing of ASCII
  letters, and the remaining functions are not reached by the samples.
\<close>

definition table_lib :: "(pystr \<times> json) list \<Rightarrow> pylib" where
  "table_lib table =
     \<lparr>json_loads = (\<lambda>s. case map_of table s of
                          Some v \<Rightarrow> Inr v
                        | None \<Rightarrow> Inl (Exn (ascii ''JSONDecodeError''))),
      int_of_str = (\<lambda>s. Inl (Exn (ascii ''ValueError''))),
      repr_of = (\<lambda>v. ascii ''?''),
      lower = map (\<lambda>c. if 0x41 \<le> c \<and> c \<le> 0x5A then c + 0x20 else c),
      format_1f = (\<lambda>r. ascii ''50.0'')\<rparr>"


text \<open>Sample surroundings of Point A: ids are kept as they are and no row is stored.\<close>

definition sample_env :: plugin_env where
  "sample_env = \<lparr>normalize_user_id = (\<lambda>u. Inr u), select_impression = (\<lambda>u. Inr None)\<rparr>"

subsection \<open>Sample markers\<close>

text \<open>
  Three JSON texts and what \<open>json.loads\<close> returns for them: the marker of the
  specification's end-to-end scenario, one with a result outside the synonym table, and one
  whose interaction is a single space.
\<close>

definition hug_json :: pystr where
  \<open>hug_json = ascii ''{"interaction":"hug","chance":80,"result":"fail"}''\<close>

definition hug_decoded :: json where
  "hug_decoded =
     JObj [(ascii ''interaction'', JStr (ascii ''hug'')), (ascii ''chance'', JInt 80),
           (ascii ''result'', JStr (ascii ''fail''))]"

definition maybe_json :: pystr where
  \<open>maybe_json = ascii ''{"interaction":"hug","chance":80,"result":"maybe"}''\<close>

definition maybe_decoded :: json where
  "maybe_decoded =
     JObj [(ascii ''interaction'', JStr (ascii ''hug'')), (ascii ''chance'', JInt 80),
           (ascii ''result'', JStr (ascii ''maybe''))]"

definition blank_json :: pystr where
  \<open>blank_json = ascii ''{"interaction":" ","chance":80,"result":"ok"}''\<close>

definition blank_decoded :: json where
  "blank_decoded =
     JObj [(ascii ''interaction'', JStr (ascii '' '')), (ascii ''chance'', JInt 80),
           (ascii ''result'', JStr (ascii ''ok''))]"

text \<open>The marker line carrying a JSON text.\<close>

definition marker_line :: "pystr \<Rightarrow> pystr" where
  "marker_line j = ACTION_CHECK_MARKER_PREFIX @ ascii '' '' @ j"

definition sample_table :: "(pystr \<times> json) list" where
  "sample_table = [(hug_json, hug_decoded), (maybe_json, maybe_decoded), (blank_json, blank_decoded)]"

text \<open>
  In the words of the specification: a result token is in the synonym table (surrounding
  whitespace and case aside).
\<close>

definition result_token_known :: "pylib \<Rightarrow> pystr \<Rightarrow> bool" where
  "result_token_known lib r \<longleftrightarrow> lower lib (strip r) \<in> set success_tokens \<union> set fail_tokens"





subsection \<open>The words of the specification for the returned tuple\<close>




section \<open>Properties of the update orchestrator\<close>

lemma should_update_accepts:
  "should_update_impression cfg hc ws score \<Longrightarrow> strip hc \<noteq> [] \<and> ws \<and> filter_accepts cfg score"
  by (auto simp: should_update_impression_def filter_accepts_def split: if_splits)

lemma impression_step_build:
  "BuildImpression u' c' lc \<in> set (fst (impression_step cfg sv u c should)) \<Longrightarrow> should"
  by (auto simp: impression_step_def split: if_splits sum.splits prod.splits)

lemma settle_trace:
  "trace_out (settle cfg sv L tr u m c hc ws score) =
     tr @ fst (impression_step cfg sv u c (should_update_impression cfg hc ws score)) @
     [UpdateAffection u c,
      UpdateMessageState u m
        (snd (impression_step cfg sv u c (should_update_impression cfg hc ws score)))
        (snd (affection_step sv u c))]"
  by (simp add: settle_def affection_step_def Let_def split: prod.splits option.splits)

lemma settle_ledger: "ledger_out (settle cfg sv L tr u m c hc ws score) = L"
  by (simp add: settle_def Let_def split: prod.splits option.splits)

lemma fold_record:
  "fold (\<lambda>msg_id acc. record_processed_message acc u msg_id) ids L = L \<union> Pair u ` set ids"
  by (induction ids arbitrary: L) (auto simp: record_processed_message_def)

lemma profile_only_if_gate:
  "BuildImpression u' c' lc \<in> set (trace_out (handle cfg sv L (Turn u m c))) \<Longrightarrow>
   gate_passes cfg sv u m c"
  unfolding handle_def gate_passes_def
  by (auto simp: settle_trace Let_def split: if_splits sum.splits prod.splits
      dest!: impression_step_build should_update_accepts)

lemma affection_not_gated:
  "\<not> is_message_processed L u m \<Longrightarrow> window_at_fetch sv u (max_messages cfg) = Inr (hc, ids) \<Longrightarrow>
   length (strip hc) = 0 \<or> evaluate_message sv u m c hc = Inr ev \<Longrightarrow>
   UpdateAffection u c \<in> set (trace_out (handle cfg sv L (Turn u m c)))"
  unfolding handle_def
  by (auto simp: settle_trace Let_def split: if_splits sum.splits prod.splits)

lemma skipped_when_processed:
  "is_message_processed L u m \<Longrightarrow>
   handle cfg sv L (Turn u m c) =
     \<lparr>ledger_out = L, trace_out = [IsProcessed u m], result_out = msg_skipped\<rparr>"
  by (simp add: handle_def)

lemma window_recorded_first:
  "\<not> is_message_processed L u m \<Longrightarrow> window_at_fetch sv u (max_messages cfg) = Inr (hc, ids) \<Longrightarrow>
   take (2 + length ids) (trace_out (handle cfg sv L (Turn u m c))) =
      [IsProcessed u m, GetFiltered u (max_messages cfg)] @ map (RecordProcessed u) ids \<and>
   ledger_out (handle cfg sv L (Turn u m c)) = L \<union> Pair u ` set ids"
  unfolding handle_def
  by (auto simp: settle_trace settle_ledger fold_record Let_def
      split: if_splits sum.splits prod.splits)

lemmas sample_defs =
  sample_config_def sample_services_def sample_turn_def handle_def settle_def
  impression_step_def affection_step_def should_update_impression_def
  is_message_processed_def record_processed_message_def gate_passes_def filter_accepts_def
  strip_def lstrip_def rstrip_def py_isspace_def ascii_def msg_done_def

text \<open>
  C1, as stated: both derivation paths run only when the gate passes, and neither runs when
  the window is empty or the evaluation fails. The code refutes this for the affection
  (score) path: on a turn whose window is empty the gate does not pass, and
  \<open>update_affection\<close> is called all the same.
\<close>

theorem C1_affection_runs_on_empty_window:
  "window_at_fetch (sample_services [] [] False 0) (ascii ''U1'') 20 = Inr ([], []) \<and>
   \<not> gate_passes sample_config (sample_services [] [] False 0)
        (ascii ''U1'') (ascii ''m9'') (ascii ''hello'') \<and>
   trace_out (handle sample_config (sample_services [] [] False 0) {} sample_turn) =
     [IsProcessed (ascii ''U1'') (ascii ''m9''), GetFiltered (ascii ''U1'') 20,
      UpdateAffection (ascii ''U1'') (ascii ''hello''),
      UpdateMessageState (ascii ''U1'') (ascii ''m9'') False True]"
  by (simp add: sample_defs)

text \<open>
  C1, amended: the profile path (\<open>build_impression\<close>) runs only if the gate passes, that is
  the fetched window is not empty, the weight evaluation succeeded and the filter mode
  accepts the score. The affection path is not gated: \<open>update_affection\<close> runs on every turn
  that is not already in the ledger and whose window fetch and weight evaluation return,
  whatever the gate decides.
\<close>

theorem C1_profile_gated_affection_not:
  "(BuildImpression u' c' lc \<in> set (trace_out (handle cfg sv L (Turn u m c))) \<longrightarrow>
      gate_passes cfg sv u m c) \<and>
   (\<not> is_message_processed L u m \<and> window_at_fetch sv u (max_messages cfg) = Inr (hc, ids) \<and>
    (length (strip hc) = 0 \<or> evaluate_message sv u m c hc = Inr ev) \<longrightarrow>
      UpdateAffection u c \<in> set (trace_out (handle cfg sv L (Turn u m c))))"
  using profile_only_if_gate affection_not_gated by blast

theorem C1_profile_gated_affection_not_witness:
  "BuildImpression (ascii ''U1'') (ascii ''hello'') (ascii ''later'') \<in>
     set (trace_out (handle sample_config (sample_services (ascii ''hi'') [ascii ''m1''] True 70) {}
            (Turn (ascii ''U1'') (ascii ''m9'') (ascii ''hello'')))) \<and>
   gate_passes sample_config (sample_services (ascii ''hi'') [ascii ''m1''] True 70)
     (ascii ''U1'') (ascii ''m9'') (ascii ''hello'') \<and>
   \<not> is_message_processed {} (ascii ''U1'') (ascii ''m9'') \<and>
   window_at_fetch (sample_services (ascii ''hi'') [ascii ''m1''] True 70) (ascii ''U1'')
     (max_messages sample_config) = Inr (ascii ''hi'', [ascii ''m1'']) \<and>
   evaluate_message (sample_services (ascii ''hi'') [ascii ''m1''] True 70)
     (ascii ''U1'') (ascii ''m9'') (ascii ''hello'') (ascii ''hi'') = Inr (True, 70, ascii ''high'') \<and>
   UpdateAffection (ascii ''U1'') (ascii ''hello'') \<in>
     set (trace_out (handle sample_config (sample_services (ascii ''hi'') [ascii ''m1''] True 70) {}
            (Turn (ascii ''U1'') (ascii ''m9'') (ascii ''hello''))))"
  using C1_profile_gated_affection_not
    [of "ascii ''U1''" "ascii ''hello''" "ascii ''later''" sample_config
        "sample_services (ascii ''hi'') [ascii ''m1''] True 70" "{}"
        "ascii ''U1''" "ascii ''m9''" "ascii ''hello''" "ascii ''hi''" "[ascii ''m1'']"
        "(True, 70, ascii ''high'')"]
  by (simp add: sample_defs)

text \<open>
  C2: a turn whose (subject, message id) is already in the ledger ends as skipped after the
  ledger check alone: no window fetch, no weight evaluation, no derivation. Otherwise, once
  the window is fetched, every message id in it is recorded right after the fetch and before
  the weight evaluation or either derivation, and stays recorded whatever the evaluation and
  the derivations do afterwards.
\<close>

theorem C2_ledger_check_then_record_window:
  "(is_message_processed L u m \<longrightarrow>
      handle cfg sv L (Turn u m c) =
        \<lparr>ledger_out = L, trace_out = [IsProcessed u m], result_out = msg_skipped\<rparr>) \<and>
   (\<not> is_message_processed L u m \<and> window_at_fetch sv u (max_messages cfg) = Inr (hc, ids) \<longrightarrow>
      take (2 + length ids) (trace_out (handle cfg sv L (Turn u m c))) =
        [IsProcessed u m, GetFiltered u (max_messages cfg)] @ map (RecordProcessed u) ids \<and>
      ledger_out (handle cfg sv L (Turn u m c)) = L \<union> Pair u ` set ids)"
  using skipped_when_processed window_recorded_first by blast

theorem C2_ledger_check_then_record_window_witness:
  "is_message_processed {(ascii ''U1'', ascii ''m9'')} (ascii ''U1'') (ascii ''m9'') \<and>
   handle sample_config (sample_services (ascii ''hi'') [ascii ''m1''] False 0)
     {(ascii ''U1'', ascii ''m9'')} (Turn (ascii ''U1'') (ascii ''m9'') (ascii ''hello'')) =
     \<lparr>ledger_out = {(ascii ''U1'', ascii ''m9'')},
      trace_out = [IsProcessed (ascii ''U1'') (ascii ''m9'')], result_out = msg_skipped\<rparr> \<and>
   \<not> is_message_processed {} (ascii ''U1'') (ascii ''m9'') \<and>
   window_at_fetch (sample_services (ascii ''hi'') [ascii ''m1''] False 0) (ascii ''U1'')
     (max_messages sample_config) = Inr (ascii ''hi'', [ascii ''m1'']) \<and>
   take 3 (trace_out (handle sample_config (sample_services (ascii ''hi'') [ascii ''m1''] False 0) {}
              (Turn (ascii ''U1'') (ascii ''m9'') (ascii ''hello'')))) =
     [IsProcessed (ascii ''U1'') (ascii ''m9''), GetFiltered (ascii ''U1'') 20,
      RecordProcessed (ascii ''U1'') (ascii ''m1'')] \<and>
   ledger_out (handle sample_config (sample_services (ascii ''hi'') [ascii ''m1''] False 0) {}
              (Turn (ascii ''U1'') (ascii ''m9'') (ascii ''hello''))) = {(ascii ''U1'', ascii ''m1'')}"
  using C2_ledger_check_then_record_window
    [of "{(ascii ''U1'', ascii ''m9'')}" "ascii ''U1''" "ascii ''m9''" sample_config
        "sample_services (ascii ''hi'') [ascii ''m1''] False 0" "ascii ''hello''"]
    C2_ledger_check_then_record_window
    [of "{}" "ascii ''U1''" "ascii ''m9''" sample_config
        "sample_services (ascii ''hi'') [ascii ''m1''] False 0" "ascii ''hello''"
        "ascii ''hi''" "[ascii ''m1'']"]
  by (simp add: sample_defs)

section \<open>Properties of the outcome context relay\<close>

lemma clean_context:
  "context_by_stream (clean_expired_action_check_state now sid st) k =
     (case context_by_stream st k of
        None \<Rightarrow> None
      | Some ctx \<Rightarrow> if k = sid \<and> expired_context now ctx then None else Some ctx)"
  by (auto simp: clean_expired_action_check_state_def expired_context_def Let_def
      ACTION_CHECK_CONTEXT_TTL_SECONDS_def split: option.splits)

lemma clean_pending:
  "pending_tag_by_stream (clean_expired_action_check_state now sid st) k =
     (case pending_tag_by_stream st k of
        None \<Rightarrow> None
      | Some entry \<Rightarrow> if k = sid \<and> expired_tag now entry then None else Some entry)"
  by (auto simp: clean_expired_action_check_state_def expired_tag_def Let_def
      ACTION_CHECK_PENDING_TAG_TTL_SECONDS_def split: option.splits)



lemma clear_stream_context:
  "context_by_stream (clear_stream sid st) k = (if k = sid then None else context_by_stream st k)"
  by (simp add: clear_stream_def)

lemma clear_stream_pending:
  "pending_tag_by_stream (clear_stream sid st) k = (if k = sid then None else pending_tag_by_stream st k)"
  by (simp add: clear_stream_def)

lemma parse_created_at:
  "parse_action_check_marker lib now text = Some p \<Longrightarrow> created_at p = now"
  by (auto simp: parse_action_check_marker_def Let_def
      split: if_splits list.splits sum.splits json.splits)









lemma prefix_first_text_none:
  "\<not> list_ex is_text_segment segs \<Longrightarrow> prefix_first_text tag segs = NoTextSegment"
  by (induction segs) (auto simp: is_text_segment_def split: pyval.splits)

lemma prefix_first_text_at:
  assumes "\<not> list_ex is_text_segment pre" "seg_type seg = PStr (ascii ''text'')" "seg_data seg = PStr t"
  shows "prefix_first_text tag (pre @ seg # post) =
           (if starts_with (lstrip t) tag_visible_marker then AlreadyTagged
            else Prefixed (pre @ seg\<lparr>seg_data := PStr (rstrip (tag @ [0x20] @ t))\<rparr> # post))"
  using assms
  by (induction pre) (auto simp: is_text_segment_def split: pyval.splits)

lemma rstrip_keep: "\<not> py_isspace c \<Longrightarrow> rstrip (a @ c # b) = a @ c # rstrip b"
  by (simp add: rstrip_def dropWhile_append)

lemma starts_with_append: "starts_with (p @ s) p"
  by (simp add: starts_with_def)

lemma tagged_text_starts_with_marker:
  "starts_with (lstrip (rstrip (format_action_check_tag c r @ [0x20] @ t))) tag_visible_marker"
proof -
  let ?head = "tag_visible_marker @ [0x20] @ str_int c @ [0x25, 0x20] @ zh_result r"
  have eq: "format_action_check_tag c r @ [0x20] @ t = ?head @ 0x5D # (0x20 # t)"
    by (simp add: format_action_check_tag_def)
  have ns: "\<not> py_isspace 0x5D" by (simp add: py_isspace_def)
  have r: "rstrip (?head @ 0x5D # (0x20 # t)) = ?head @ 0x5D # rstrip (0x20 # t)"
    by (rule rstrip_keep [OF ns])
  have l: "lstrip (?head @ 0x5D # rstrip (0x20 # t)) = ?head @ 0x5D # rstrip (0x20 # t)"
    by (simp add: lstrip_def tag_visible_marker_def py_isspace_def)
  have "starts_with (tag_visible_marker @ ([0x20] @ str_int c @ [0x25, 0x20] @ zh_result r @
          0x5D # rstrip (0x20 # t))) tag_visible_marker"
    by (rule starts_with_append)
  then show ?thesis
    unfolding eq r l by simp
qed

lemma post_send_no_text:
  assumes "enabled cfg" "show_roll_result cfg" "stream_id m = Inr sidv" "truthy sidv"
    and "message_segments m = Inr segs" "\<not> list_ex is_text_segment segs"
  shows "post_send_execute cfg now st (Some m) =
           \<lparr>state_after = clean_expired_action_check_state now (str_of sidv) st,
            message_after = Some m, returned = pass_through, logged = []\<rparr>"
  using assms
  by (auto simp: post_send_execute_def post_send_body_def try_except_def Let_def
      prefix_first_text_none split: option.splits)

lemma post_send_apply:
  assumes "enabled cfg" "show_roll_result cfg" "stream_id m = Inr sidv" "truthy sidv"
    and "pending_tag_by_stream st (str_of sidv) = Some (tag, ts)" "now - ts \<le> 60"
    and "message_segments m = Inr (pre @ seg # post)" "\<not> list_ex is_text_segment pre"
    and "seg_type seg = PStr (ascii ''text'')" "seg_data seg = PStr t"
    and "modify_message_segments_raises m = None"
  shows "post_send_execute cfg now st (Some m) =
           (if starts_with (lstrip t) tag_visible_marker
            then \<lparr>state_after = clear_stream (str_of sidv) (clean_expired_action_check_state now (str_of sidv) st),
                  message_after = Some m, returned = pass_through, logged = []\<rparr>
            else \<lparr>state_after = clear_stream (str_of sidv) (clean_expired_action_check_state now (str_of sidv) st),
                  message_after =
                    Some (m\<lparr>message_segments :=
                              Inr (pre @ seg\<lparr>seg_data := PStr (rstrip (tag @ [0x20] @ t))\<rparr> # post)\<rparr>),
                  returned = (True, True, Some note_post_send, None,
                    Some (m\<lparr>message_segments :=
                              Inr (pre @ seg\<lparr>seg_data := PStr (rstrip (tag @ [0x20] @ t))\<rparr> # post)\<rparr>)),
                  logged = []\<rparr>)"
  using assms
  by (simp add: post_send_execute_def post_send_body_def try_except_def Let_def
      prefix_first_text_at clean_pending expired_tag_def)

lemma post_send_no_pending:
  assumes "enabled cfg" "show_roll_result cfg" "stream_id m = Inr sidv" "truthy sidv"
    and "pending_tag_by_stream st (str_of sidv) = None"
  shows "post_send_execute cfg now st (Some m) =
           \<lparr>state_after = clean_expired_action_check_state now (str_of sidv) st,
            message_after = Some m, returned = pass_through, logged = []\<rparr>"
  using assms
  by (simp add: post_send_execute_def post_send_body_def try_except_def Let_def clean_pending)

lemmas relay_sample_defs =
  sample_relay_config_def sample_message_def sample_state_def sample_context_def
  truthy_def str_of_def is_text_segment_def

lemmas relay_eval_defs =
  post_llm_execute_def post_llm_body_def after_llm_execute_def after_llm_body_def
  post_send_execute_def post_send_body_def try_except_def pass_through_def clear_stream_def Let_def
  clean_expired_action_check_state_def ACTION_CHECK_CONTEXT_TTL_SECONDS_def
  ACTION_CHECK_PENDING_TAG_TTL_SECONDS_def




text \<open>
  C3: Point D twice for the same conversation with the same pending tag. The first call puts
  the tag in front of the first text segment (one whose type is \<open>"text"\<close> and whose data is
  a string not yet starting with the visible marker) and clears the pending tag and the
  context. The second call leaves the message untouched and returns the pass-through tuple:
  when the same tag is pending again it finds the visible marker at the start of the segment
  and clears the state (\<open>out2\<close>); when nothing is pending it does nothing (\<open>out3\<close>).
\<close>

theorem C3_tag_prepended_once:
  fixes cfg :: relay_config and m :: message and c :: int and r t :: pystr
    and pre post :: "segment list" and seg :: segment and now now2 ts2 :: real
    and st :: relay_state and sidv :: pyval
  defines "tag \<equiv> format_action_check_tag c r"
  defines "m1 \<equiv> m\<lparr>message_segments :=
                      Inr (pre @ seg\<lparr>seg_data := PStr (rstrip (tag @ [0x20] @ t))\<rparr> # post)\<rparr>"
  defines "out1 \<equiv> post_send_execute cfg now st (Some m)"
  defines "again \<equiv> (state_after out1)\<lparr>pending_tag_by_stream :=
                      (pending_tag_by_stream (state_after out1))(str_of sidv \<mapsto> (tag, ts2))\<rparr>"
  defines "out2 \<equiv> post_send_execute cfg now2 again (Some m1)"
  defines "out3 \<equiv> post_send_execute cfg now2 (state_after out1) (Some m1)"
  assumes en: "enabled cfg" and sh: "show_roll_result cfg"
    and sid: "stream_id m = Inr sidv" and tr: "truthy sidv"
    and pend: "pending_tag_by_stream st (str_of sidv) = Some (tag, ts)" and live: "now - ts \<le> 60"
    and segs: "message_segments m = Inr (pre @ seg # post)"
    and before: "\<not> list_ex is_text_segment pre"
    and ty: "seg_type seg = PStr (ascii ''text'')" and da: "seg_data seg = PStr t"
    and fresh: "\<not> starts_with (lstrip t) tag_visible_marker"
    and modify: "modify_message_segments_raises m = None"
    and live2: "now2 - ts2 \<le> 60"
  shows "message_after out1 = Some m1 \<and>
         returned out1 = (True, True, Some note_post_send, None, Some m1) \<and>
         pending_tag_by_stream (state_after out1) (str_of sidv) = None \<and>
         context_by_stream (state_after out1) (str_of sidv) = None \<and>
         message_after out2 = Some m1 \<and> returned out2 = pass_through \<and>
         pending_tag_by_stream (state_after out2) (str_of sidv) = None \<and>
         context_by_stream (state_after out2) (str_of sidv) = None \<and>
         message_after out3 = Some m1 \<and> returned out3 = pass_through"
proof -
  have o1: "out1 = \<lparr>state_after = clear_stream (str_of sidv)
                        (clean_expired_action_check_state now (str_of sidv) st),
                     message_after = Some m1,
                     returned = (True, True, Some note_post_send, None, Some m1), logged = []\<rparr>"
    unfolding out1_def m1_def
    using post_send_apply [OF en sh sid tr pend live segs before ty da modify] fresh by simp
  have sid1: "stream_id m1 = Inr sidv"
    and modify1: "modify_message_segments_raises m1 = None"
    and segs1: "message_segments m1 =
                  Inr (pre @ seg\<lparr>seg_data := PStr (rstrip (tag @ [0x20] @ t))\<rparr> # post)"
    using sid modify by (simp_all add: m1_def)
  have ty1: "seg_type (seg\<lparr>seg_data := PStr (rstrip (tag @ [0x20] @ t))\<rparr>) = PStr (ascii ''text'')"
    and da1: "seg_data (seg\<lparr>seg_data := PStr (rstrip (tag @ [0x20] @ t))\<rparr>) =
                PStr (rstrip (tag @ [0x20] @ t))"
    using ty by simp_all
  have p2: "pending_tag_by_stream again (str_of sidv) = Some (tag, ts2)"
    by (simp add: again_def)
  have tagged: "starts_with (lstrip (rstrip (tag @ [0x20] @ t))) tag_visible_marker"
    unfolding tag_def by (rule tagged_text_starts_with_marker)
  have o2: "out2 = \<lparr>state_after = clear_stream (str_of sidv)
                        (clean_expired_action_check_state now2 (str_of sidv) again),
                     message_after = Some m1, returned = pass_through, logged = []\<rparr>"
    unfolding out2_def
    using post_send_apply [OF en sh sid1 tr p2 live2 segs1 before ty1 da1 modify1] tagged
    by simp
  have p3: "pending_tag_by_stream (state_after out1) (str_of sidv) = None"
    by (simp add: o1 clear_stream_pending)
  have o3: "out3 = \<lparr>state_after = clean_expired_action_check_state now2 (str_of sidv) (state_after out1),
                     message_after = Some m1, returned = pass_through, logged = []\<rparr>"
    unfolding out3_def
    by (rule post_send_no_pending [OF en sh sid1 tr p3])
  show ?thesis
    by (simp add: o1 o2 o3 clear_stream_pending clear_stream_context)
qed

theorem C3_tag_prepended_once_witness:
  "enabled sample_relay_config \<and> show_roll_result sample_relay_config \<and>
   \<not> starts_with (lstrip (ascii ''hello '')) tag_visible_marker \<and>
   message_after (post_send_execute sample_relay_config 10
      (sample_state (Some (sample_context 0)) (Some (format_action_check_tag 80 (ascii ''fail''), 5)))
      (Some (sample_message [] [\<lparr>seg_type = PStr (ascii ''image''), seg_data = PObj True []\<rparr>,
                               \<lparr>seg_type = PStr (ascii ''text''), seg_data = PStr (ascii ''hello '')\<rparr>]))) =
     Some (sample_message [] [\<lparr>seg_type = PStr (ascii ''image''), seg_data = PObj True []\<rparr>,
                               \<lparr>seg_type = PStr (ascii ''text''),
                                seg_data = PStr (format_action_check_tag 80 (ascii ''fail'') @ ascii '' hello'')\<rparr>])"
  using C3_tag_prepended_once [of sample_relay_config
      "sample_message [] [\<lparr>seg_type = PStr (ascii ''image''), seg_data = PObj True []\<rparr>,
                               \<lparr>seg_type = PStr (ascii ''text''), seg_data = PStr (ascii ''hello '')\<rparr>]"
      "PStr (ascii ''s1'')"
      "sample_state (Some (sample_context 0)) (Some (format_action_check_tag 80 (ascii ''fail''), 5))"
      80 "ascii ''fail''" 5 10
      "[\<lparr>seg_type = PStr (ascii ''image''), seg_data = PObj True []\<rparr>]"
      "\<lparr>seg_type = PStr (ascii ''text''), seg_data = PStr (ascii ''hello '')\<rparr>" "[]"
      "ascii ''hello ''" 20 15]
  apply (simp add: sample_relay_config_def sample_message_def sample_state_def sample_context_def
      truthy_def str_of_def is_text_segment_def)
  apply (simp add: ascii_def lstrip_def rstrip_def starts_with_def py_isspace_def tag_visible_marker_def format_action_check_tag_def zh_result_def zh_fail_def str_int_def)
  done

text \<open>
  C10: with a live pending tag, an outgoing message at Point D that has no segments, or no
  segment of type \<open>"text"\<close> with a string payload, is left unmodified, and Point D clears
  nothing: the state afterwards is the state after the eviction at entry, the pending tag is
  still stored, and so is a context that has not expired. A later call for the same
  conversation, while the tag is live, puts the tag in front of the first text segment of
  its message.
\<close>

theorem C10_no_text_segment_keeps_state:
  assumes "enabled cfg" "show_roll_result cfg" "stream_id m = Inr sidv" "truthy sidv"
    and "pending_tag_by_stream st (str_of sidv) = Some (tag, ts)" "now - ts \<le> 60"
    and "message_segments m = Inr segs" "\<not> list_ex is_text_segment segs"
  shows "message_after (post_send_execute cfg now st (Some m)) = Some m \<and>
         returned (post_send_execute cfg now st (Some m)) = pass_through \<and>
         logged (post_send_execute cfg now st (Some m)) = [] \<and>
         state_after (post_send_execute cfg now st (Some m)) =
           clean_expired_action_check_state now (str_of sidv) st \<and>
         pending_tag_by_stream (state_after (post_send_execute cfg now st (Some m))) (str_of sidv) =
           Some (tag, ts) \<and>
         (\<forall>ctx. context_by_stream st (str_of sidv) = Some ctx \<and> now - created_at ctx \<le> 120 \<longrightarrow>
            context_by_stream (state_after (post_send_execute cfg now st (Some m))) (str_of sidv) =
              Some ctx) \<and>
         (\<forall>now2 m2 pre seg post t.
            stream_id m2 = Inr sidv \<and> now2 - ts \<le> 60 \<and>
            message_segments m2 = Inr (pre @ seg # post) \<and> \<not> list_ex is_text_segment pre \<and>
            seg_type seg = PStr (ascii ''text'') \<and> seg_data seg = PStr t \<and>
            \<not> starts_with (lstrip t) tag_visible_marker \<and>
            modify_message_segments_raises m2 = None \<longrightarrow>
            message_after (post_send_execute cfg now2
                (state_after (post_send_execute cfg now st (Some m))) (Some m2)) =
              Some (m2\<lparr>message_segments :=
                          Inr (pre @ seg\<lparr>seg_data := PStr (rstrip (tag @ [0x20] @ t))\<rparr> # post)\<rparr>))"
proof -
  have o: "post_send_execute cfg now st (Some m) =
           \<lparr>state_after = clean_expired_action_check_state now (str_of sidv) st,
            message_after = Some m, returned = pass_through, logged = []\<rparr>"
    by (rule post_send_no_text [OF assms(1-4) assms(7,8)])
  have p: "pending_tag_by_stream (clean_expired_action_check_state now (str_of sidv) st) (str_of sidv) =
           Some (tag, ts)"
    using assms(5,6) by (simp add: clean_pending expired_tag_def)
  have later: "message_after (post_send_execute cfg now2
                (clean_expired_action_check_state now (str_of sidv) st) (Some m2)) =
              Some (m2\<lparr>message_segments :=
                          Inr (pre @ seg\<lparr>seg_data := PStr (rstrip (tag @ [0x20] @ t))\<rparr> # post)\<rparr>)"
    if "stream_id m2 = Inr sidv" "now2 - ts \<le> 60"
      "message_segments m2 = Inr (pre @ seg # post)" "\<not> list_ex is_text_segment pre"
      "seg_type seg = PStr (ascii ''text'')" "seg_data seg = PStr t"
      "\<not> starts_with (lstrip t) tag_visible_marker"
      "modify_message_segments_raises m2 = None"
    for now2 m2 pre seg post t
    using post_send_apply [OF assms(1,2) that(1) assms(4) p that(2-6) that(8)] that(7)
    by simp
  show ?thesis
    using assms(5,6) later
    by (auto simp: o p clean_context expired_context_def)
qed

theorem C10_no_text_segment_keeps_state_witness:
  "enabled sample_relay_config \<and> show_roll_result sample_relay_config \<and>
   stream_id (sample_message [] [\<lparr>seg_type = PStr (ascii ''image''), seg_data = PObj True []\<rparr>]) =
     Inr (PStr (ascii ''s1'')) \<and>
   truthy (PStr (ascii ''s1'')) \<and>
   pending_tag_by_stream
     (sample_state (Some (sample_context 0)) (Some (format_action_check_tag 80 (ascii ''fail''), 5)))
     (str_of (PStr (ascii ''s1''))) = Some (format_action_check_tag 80 (ascii ''fail''), 5) \<and>
   (10::real) - 5 \<le> 60 \<and>
   \<not> list_ex is_text_segment [\<lparr>seg_type = PStr (ascii ''image''), seg_data = PObj True []\<rparr>] \<and>
   post_send_execute sample_relay_config 10
     (sample_state (Some (sample_context 0)) (Some (format_action_check_tag 80 (ascii ''fail''), 5)))
     (Some (sample_message [] [\<lparr>seg_type = PStr (ascii ''image''), seg_data = PObj True []\<rparr>])) =
   \<lparr>state_after =
      sample_state (Some (sample_context 0)) (Some (format_action_check_tag 80 (ascii ''fail''), 5)),
    message_after =
      Some (sample_message [] [\<lparr>seg_type = PStr (ascii ''image''), seg_data = PObj True []\<rparr>]),
    returned = pass_through, logged = []\<rparr> \<and>
   (20::real) - 5 \<le> 60 \<and>
   \<not> starts_with (lstrip (ascii ''hi'')) tag_visible_marker \<and>
   message_after (post_send_execute sample_relay_config 20
     (state_after (post_send_execute sample_relay_config 10
        (sample_state (Some (sample_context 0)) (Some (format_action_check_tag 80 (ascii ''fail''), 5)))
        (Some (sample_message [] [\<lparr>seg_type = PStr (ascii ''image''), seg_data = PObj True []\<rparr>]))))
     (Some (sample_message [] [\<lparr>seg_type = PStr (ascii ''text''), seg_data = PStr (ascii ''hi'')\<rparr>]))) =
   Some (sample_message []
     [\<lparr>seg_type = PStr (ascii ''text''),
       seg_data = PStr (format_action_check_tag 80 (ascii ''fail'') @ ascii '' hi'')\<rparr>])"
  using C10_no_text_segment_keeps_state [of sample_relay_config
      "sample_message [] [\<lparr>seg_type = PStr (ascii ''image''), seg_data = PObj True []\<rparr>]"
      "PStr (ascii ''s1'')"
      "sample_state (Some (sample_context 0)) (Some (format_action_check_tag 80 (ascii ''fail''), 5))"
      "format_action_check_tag 80 (ascii ''fail'')" 5 10
      "[\<lparr>seg_type = PStr (ascii ''image''), seg_data = PObj True []\<rparr>]"]
  apply (simp add: relay_sample_defs ascii_def relay_eval_defs)
  apply (simp add: lstrip_def rstrip_def starts_with_def py_isspace_def tag_visible_marker_def
      format_action_check_tag_def zh_result_def zh_fail_def str_int_def)
  done

lemma contains_prefix: "starts_with s sub \<Longrightarrow> contains s sub"
  by (cases s) (auto simp: starts_with_def)

lemma contains_append_left: "contains s sub \<Longrightarrow> contains (a @ s) sub"
  by (induction a) auto

lemma contains_sentinel_block:
  "contains (a @ ACTION_CHECK_SENTINEL @ b) ACTION_CHECK_SENTINEL"
  by (intro contains_append_left contains_prefix starts_with_append)

lemma contains_nonempty: "contains s ACTION_CHECK_SENTINEL \<Longrightarrow> s \<noteq> []"
  by (auto simp: ACTION_CHECK_SENTINEL_def ascii_def)

lemma new_prompt_contains_sentinel:
  "contains (rstrip prompt @ 0xA # 0xA # extra_block lib show_tag platform raw_user_id score level)
     ACTION_CHECK_SENTINEL"
proof -
  have "rstrip prompt @ 0xA # 0xA # extra_block lib show_tag platform raw_user_id score level =
        (rstrip prompt @ [0xA, 0xA]) @ ACTION_CHECK_SENTINEL @
        (planner_protocol_text @ platform @ ascii ''\<newline>- user_id: '' @ raw_user_id @
         ascii ''\<newline>- affection_score: '' @ format_1f lib score @
         ascii ''/100\<newline>- affection_level: '' @ level @
         [0xa, 0xa, 0x5907, 0x6ce8, 0xff1a] @ (if show_tag then remark_shown else remark_hidden))"
    by (simp add: extra_block_def)
  then show ?thesis
    by (simp only: contains_sentinel_block)
qed

lemma planner_sentinel_present:
  assumes "llm_prompt m = Inr (PStr prompt)" "contains prompt ACTION_CHECK_SENTINEL"
  shows "planner_execute cfg lib env st (Some m) =
           \<lparr>state_after = st, message_after = Some m, returned = pass_through, logged = []\<rparr>"
  using assms contains_nonempty [OF assms(2)]
  by (simp add: planner_execute_def planner_body_def try_except_def truthy_def)

lemma planner_outcomes:
  "(returned (planner_execute cfg lib env st msg) = pass_through \<and>
    message_after (planner_execute cfg lib env st msg) = msg) \<or>
   (returned (planner_execute cfg lib env st msg) \<noteq> pass_through \<and>
    (\<exists>m p. message_after (planner_execute cfg lib env st msg) = Some m \<and>
      llm_prompt m = Inr (PStr p) \<and> contains p ACTION_CHECK_SENTINEL))"
  by (auto simp: planner_execute_def planner_body_def try_except_def Let_def
      new_prompt_contains_sentinel pass_through_def
      split: option.splits sum.splits pyval.splits prod.splits)

text \<open>
  C4: Point A on a prompt that already contains the sentinel leaves the prompt as it is and
  returns the pass-through tuple. A call of Point A that does not return the pass-through
  tuple has put the instructional block, which begins with the sentinel, into the prompt,
  and any further call on that message changes nothing; a call that returns the
  pass-through tuple has not touched the message. So two calls in a row inject the block at
  most once.
\<close>

theorem C4_planner_augmentation_idempotent:
  "(llm_prompt m = Inr (PStr prompt) \<and> contains prompt ACTION_CHECK_SENTINEL \<longrightarrow>
      planner_execute cfg lib env st (Some m) =
        \<lparr>state_after = st, message_after = Some m, returned = pass_through, logged = []\<rparr>) \<and>
   (returned (planner_execute cfg lib env st msg) = pass_through \<longrightarrow>
      message_after (planner_execute cfg lib env st msg) = msg) \<and>
   (returned (planner_execute cfg lib env st msg) \<noteq> pass_through \<longrightarrow>
      planner_execute cfg2 lib2 env2 st2 (message_after (planner_execute cfg lib env st msg)) =
        \<lparr>state_after = st2, message_after = message_after (planner_execute cfg lib env st msg),
         returned = pass_through, logged = []\<rparr>)"
  using planner_outcomes [of cfg lib env st msg] planner_sentinel_present
  by auto

theorem C4_planner_augmentation_idempotent_witness:
  "llm_prompt (sample_message (ascii ''go '' @ ACTION_CHECK_SENTINEL) []) =
     Inr (PStr (ascii ''go '' @ ACTION_CHECK_SENTINEL)) \<and>
   contains (ascii ''go '' @ ACTION_CHECK_SENTINEL) ACTION_CHECK_SENTINEL \<and>
   planner_execute sample_relay_config (table_lib []) sample_env (sample_state None None)
     (Some (sample_message (ascii ''go '' @ ACTION_CHECK_SENTINEL) [])) =
     \<lparr>state_after = sample_state None None,
      message_after = Some (sample_message (ascii ''go '' @ ACTION_CHECK_SENTINEL) []),
      returned = pass_through, logged = []\<rparr> \<and>
   returned (planner_execute sample_relay_config (table_lib []) sample_env (sample_state None None)
     (Some (sample_message (ascii ''go '') []))) \<noteq> pass_through \<and>
   planner_execute sample_relay_config (table_lib []) sample_env (sample_state None None)
     (message_after (planner_execute sample_relay_config (table_lib []) sample_env
        (sample_state None None) (Some (sample_message (ascii ''go '') [])))) =
     \<lparr>state_after = sample_state None None,
      message_after = message_after (planner_execute sample_relay_config (table_lib []) sample_env
        (sample_state None None) (Some (sample_message (ascii ''go '') []))),
      returned = pass_through, logged = []\<rparr>"
proof -
  have ne: "returned (planner_execute sample_relay_config (table_lib []) sample_env
      (sample_state None None) (Some (sample_message (ascii ''go '') []))) \<noteq> pass_through"
    by (simp add: planner_execute_def planner_body_def try_except_def Let_def pass_through_def
        sample_relay_config_def sample_message_def sample_env_def truthy_def ascii_def
        ACTION_CHECK_SENTINEL_def starts_with_def affection_of_def split: prod.splits)
  have c: "contains (ascii ''go '' @ ACTION_CHECK_SENTINEL) ACTION_CHECK_SENTINEL"
    by (simp add: ascii_def ACTION_CHECK_SENTINEL_def starts_with_def)
  show ?thesis
    using C4_planner_augmentation_idempotent [of "sample_message (ascii ''go '' @ ACTION_CHECK_SENTINEL) []"
        "ascii ''go '' @ ACTION_CHECK_SENTINEL" sample_relay_config "table_lib []" sample_env
        "sample_state None None" "Some (sample_message (ascii ''go '' @ ACTION_CHECK_SENTINEL) [])"]
      C4_planner_augmentation_idempotent [of "sample_message (ascii ''go '') []"
        "ascii ''go ''" sample_relay_config "table_lib []" sample_env
        "sample_state None None" "Some (sample_message (ascii ''go '') [])"
        sample_relay_config "table_lib []" sample_env "sample_state None None"]
      ne c
    by (simp add: sample_message_def)
qed

lemma findall_hug: "findall_marker (marker_line hug_json) = [hug_json]"
  by (simp add: marker_line_def hug_json_def ascii_def ACTION_CHECK_MARKER_PREFIX_def
      match_marker_def starts_with_def py_isspace_def)

lemma findall_two:
  "findall_marker (marker_line hug_json @ 0xA # marker_line maybe_json) = [hug_json, maybe_json]"
  by (simp add: marker_line_def hug_json_def maybe_json_def ascii_def ACTION_CHECK_MARKER_PREFIX_def
      match_marker_def starts_with_def py_isspace_def)

lemma findall_nonempty_text: "findall_marker text \<noteq> [] \<Longrightarrow> text \<noteq> []"
  by auto

lemma tokens_disjoint: "x \<in> set success_tokens \<Longrightarrow> x \<notin> set fail_tokens"
  by (auto simp: success_tokens_def fail_tokens_def ascii_def)

lemma parse_valid_last:
  assumes "findall_marker text \<noteq> []"
    and "json_loads lib (strip (last (findall_marker text))) = Inr (JObj d)"
    and "map_of d (ascii ''interaction'') = Some (JStr i)" "strip i \<noteq> []"
    and "map_of d (ascii ''chance'') = Some (JInt n)"
    and "map_of d (ascii ''result'') = Some (JStr r)" "result_token_known lib r"
  shows "parse_action_check_marker lib now text =
           Some \<lparr>ctx_stream_id = [], interaction = strip i, chance = max 0 (min 100 n),
                 result = (if lower lib (strip r) \<in> set success_tokens
                           then ascii ''success'' else ascii ''fail''),
                 created_at = now\<rparr>"
proof -
  from assms(1) obtain m ms where f: "findall_marker text = m # ms"
    by (cases "findall_marker text") auto
  have t: "text \<noteq> []" using assms(1) by (rule findall_nonempty_text)
  show ?thesis
    using assms(2-7) t
    by (simp add: parse_action_check_marker_def f dict_get_def str_of_json_def int_of_json_def
        result_token_known_def Let_def)
qed

text \<open>
  C5, amended: when the last marker of the prompt (the last match of the pattern) decodes to
  an object whose interaction is a string that is not blank, whose chance is an integer, and
  whose result, trimmed and lower-cased, is in the synonym table, parsing returns the
  decision of that marker: the interaction trimmed, the chance clamped into 0..100 (as it is
  when already in range), the result \<open>success\<close> or \<open>fail\<close>.
\<close>

theorem C5_last_marker_decides:
  assumes "findall_marker text \<noteq> []"
    and "json_loads lib (strip (last (findall_marker text))) = Inr (JObj d)"
    and "map_of d (ascii ''interaction'') = Some (JStr i)" "strip i \<noteq> []"
    and "map_of d (ascii ''chance'') = Some (JInt n)"
    and "map_of d (ascii ''result'') = Some (JStr r)" "result_token_known lib r"
  shows "parse_action_check_marker lib now text =
           Some \<lparr>ctx_stream_id = [], interaction = strip i, chance = max 0 (min 100 n),
                 result = (if lower lib (strip r) \<in> set success_tokens
                           then ascii ''success'' else ascii ''fail''),
                 created_at = now\<rparr> \<and>
         0 \<le> max 0 (min 100 n) \<and> max 0 (min 100 n) \<le> 100 \<and>
         (0 \<le> n \<and> n \<le> 100 \<longrightarrow> max 0 (min 100 n) = n)"
  using parse_valid_last [OF assms] by auto


lemma parse_unknown_result:
  assumes "findall_marker text \<noteq> []"
    and "json_loads lib (strip (last (findall_marker text))) = Inr (JObj d)"
    and "lower lib (strip (str_of_json lib (dict_get d (ascii ''result'') (JStr [])))) \<notin>
           set success_tokens \<union> set fail_tokens"
  shows "parse_action_check_marker lib now text = None"
  using assms
  by (cases "findall_marker text")
     (simp_all add: parse_action_check_marker_def Let_def split: sum.splits)

lemma parse_blank_interaction:
  assumes "findall_marker text \<noteq> []"
    and "json_loads lib (strip (last (findall_marker text))) = Inr (JObj d)"
    and "strip (str_of_json lib (dict_get d (ascii ''interaction'') (JStr []))) = []"
  shows "parse_action_check_marker lib now text = None"
  using assms
  by (cases "findall_marker text")
     (simp_all add: parse_action_check_marker_def Let_def split: sum.splits)

lemma strip_sample_json:
  "strip hug_json = hug_json" "strip maybe_json = maybe_json" "strip blank_json = blank_json"
  by (simp_all add: hug_json_def maybe_json_def blank_json_def ascii_def strip_def lstrip_def
      rstrip_def py_isspace_def)

lemma sample_table_loads:
  "json_loads (table_lib sample_table) hug_json = Inr hug_decoded"
  "json_loads (table_lib sample_table) maybe_json = Inr maybe_decoded"
  "json_loads (table_lib sample_table) blank_json = Inr blank_decoded"
  by (simp_all add: table_lib_def sample_table_def hug_json_def maybe_json_def blank_json_def
      ascii_def)

lemma findall_blank: "findall_marker (marker_line blank_json) = [blank_json]"
  by (simp add: marker_line_def blank_json_def ascii_def ACTION_CHECK_MARKER_PREFIX_def
      match_marker_def starts_with_def py_isspace_def)

lemmas value_eval_defs =
  dict_get_def str_of_json_def int_of_json_def success_tokens_def fail_tokens_def
  table_lib_def strip_def lstrip_def rstrip_def py_isspace_def ascii_def

text \<open>
  C5, as stated: whenever the prompt contains a marker whose object has a non-empty
  interaction string, an integer chance and a result in the synonym table, parsing returns
  the decision of the last such marker. The code refutes this twice. A valid marker followed
  by a marker with an unknown result: only the last match is decoded, and parsing returns
  nothing. A marker whose interaction is the non-empty string of one space: the interaction
  is trimmed before it is tested, and parsing returns nothing.
\<close>

theorem C5_valid_marker_not_returned:
  "findall_marker (marker_line hug_json @ 0xA # marker_line maybe_json) = [hug_json, maybe_json] \<and>
   json_loads (table_lib sample_table) (strip hug_json) = Inr hug_decoded \<and>
   parse_action_check_marker (table_lib sample_table) 0
     (marker_line hug_json @ 0xA # marker_line maybe_json) = None \<and>
   findall_marker (marker_line blank_json) = [blank_json] \<and>
   json_loads (table_lib sample_table) (strip blank_json) = Inr blank_decoded \<and>
   parse_action_check_marker (table_lib sample_table) 0 (marker_line blank_json) = None"
proof -
  have a: "parse_action_check_marker (table_lib sample_table) 0
     (marker_line hug_json @ 0xA # marker_line maybe_json) = None"
  proof (rule parse_unknown_result)
    show "findall_marker (marker_line hug_json @ 0xA # marker_line maybe_json) \<noteq> []"
      by (simp add: findall_two)
    show "json_loads (table_lib sample_table)
            (strip (last (findall_marker (marker_line hug_json @ 0xA # marker_line maybe_json)))) =
          Inr (JObj [(ascii ''interaction'', JStr (ascii ''hug'')), (ascii ''chance'', JInt 80),
                     (ascii ''result'', JStr (ascii ''maybe''))])"
      by (simp add: findall_two strip_sample_json sample_table_loads maybe_decoded_def)
    show "lower (table_lib sample_table)
            (strip (str_of_json (table_lib sample_table)
               (dict_get [(ascii ''interaction'', JStr (ascii ''hug'')), (ascii ''chance'', JInt 80),
                          (ascii ''result'', JStr (ascii ''maybe''))] (ascii ''result'') (JStr [])))) \<notin>
          set success_tokens \<union> set fail_tokens"
      by (simp add: value_eval_defs)
  qed
  have b: "parse_action_check_marker (table_lib sample_table) 0 (marker_line blank_json) = None"
  proof (rule parse_blank_interaction)
    show "findall_marker (marker_line blank_json) \<noteq> []"
      by (simp add: findall_blank)
    show "json_loads (table_lib sample_table)
            (strip (last (findall_marker (marker_line blank_json)))) =
          Inr (JObj [(ascii ''interaction'', JStr (ascii '' '')), (ascii ''chance'', JInt 80),
                     (ascii ''result'', JStr (ascii ''ok''))])"
      by (simp add: findall_blank strip_sample_json sample_table_loads blank_decoded_def)
    show "strip (str_of_json (table_lib sample_table)
               (dict_get [(ascii ''interaction'', JStr (ascii '' '')), (ascii ''chance'', JInt 80),
                          (ascii ''result'', JStr (ascii ''ok''))] (ascii ''interaction'') (JStr []))) = []"
      by (simp add: value_eval_defs)
  qed
  show ?thesis
    using a b
    by (simp add: findall_two findall_blank strip_sample_json sample_table_loads)
qed

theorem C5_last_marker_decides_witness:
  "findall_marker (marker_line hug_json) \<noteq> [] \<and>
   json_loads (table_lib sample_table) (strip (last (findall_marker (marker_line hug_json)))) =
     Inr (JObj [(ascii ''interaction'', JStr (ascii ''hug'')), (ascii ''chance'', JInt 80),
                (ascii ''result'', JStr (ascii ''fail''))]) \<and>
   strip (ascii ''hug'') \<noteq> [] \<and>
   result_token_known (table_lib sample_table) (ascii ''fail'') \<and>
   parse_action_check_marker (table_lib sample_table) 7 (marker_line hug_json) =
     Some \<lparr>ctx_stream_id = [], interaction = ascii ''hug'', chance = 80,
           result = ascii ''fail'', created_at = 7\<rparr>"
proof -
  let ?d = "[(ascii ''interaction'', JStr (ascii ''hug'')), (ascii ''chance'', JInt 80),
             (ascii ''result'', JStr (ascii ''fail''))]"
  have h1: "findall_marker (marker_line hug_json) \<noteq> []"
    by (simp add: findall_hug)
  have h2: "json_loads (table_lib sample_table)
              (strip (last (findall_marker (marker_line hug_json)))) = Inr (JObj ?d)"
    by (simp add: findall_hug strip_sample_json sample_table_loads hug_decoded_def)
  have h3: "map_of ?d (ascii ''interaction'') = Some (JStr (ascii ''hug''))"
    by (simp add: ascii_def)
  have sh: "strip (ascii ''hug'') = ascii ''hug''"
    by (simp add: value_eval_defs)
  have h4: "strip (ascii ''hug'') \<noteq> []"
    by (simp add: value_eval_defs)
  have h5: "map_of ?d (ascii ''chance'') = Some (JInt 80)"
    by (simp add: ascii_def)
  have h6: "map_of ?d (ascii ''result'') = Some (JStr (ascii ''fail''))"
    by (simp add: ascii_def)
  have h7: "result_token_known (table_lib sample_table) (ascii ''fail'')"
    by (simp add: result_token_known_def value_eval_defs)
  have lf: "lower (table_lib sample_table) (strip (ascii ''fail'')) \<notin> set success_tokens"
    by (simp add: value_eval_defs)
  have "parse_action_check_marker (table_lib sample_table) 7 (marker_line hug_json) =
          Some \<lparr>ctx_stream_id = [], interaction = ascii ''hug'', chance = 80,
                result = ascii ''fail'', created_at = 7\<rparr>"
    using C5_last_marker_decides [OF h1 h2 h3 h4 h5 h6 h7, of 7] lf by (simp add: sh)
  with h1 h2 h4 h7 show ?thesis by blast
qed









lemma strip_scan_mid: "strip_scan False (x # xs) = x # strip_scan (x = 0xA) xs"
  by simp






















lemma try_except_returned:
  "returned (try_except (st, m, r)) = (case r of Inl e \<Rightarrow> pass_through | Inr t \<Rightarrow> t)"
  by (simp add: try_except_def split: sum.splits)

lemma try_except_logged:
  "logged (try_except (st, m, r)) = (case r of Inl e \<Rightarrow> [e] | Inr t \<Rightarrow> [])"
  by (simp add: try_except_def split: sum.splits)












end
